theory Spec2Isabelle
  imports Main "HOL-Library.Word" "HOL-Library.Log_Nat"
begin

section \<open>Strings\<close>

text \<open>
  A JavaScript string is a sequence of UTF-16 code units; \<open>length\<close>, \<open>slice\<close>, equality and
  concatenation all work on code units. String literals of the program that are plain
  ASCII are written \<open>lit ''...''\<close>; the few symbols outside ASCII are given as code units.
\<close>

type_synonym jsstring = "16 word list"

definition lit :: "string \<Rightarrow> jsstring" where
  "lit s = map (\<lambda>c. of_nat (of_char c)) s"

definition CHECK :: jsstring where
  "CHECK = [0x2713]"

definition WARNING :: jsstring where
  "WARNING = [0x26A0]"

definition BULLET :: jsstring where
  "BULLET = [0x2022]"

text \<open>
  \<open>String.prototype.slice(start, end)\<close>: a negative index counts from the end, both indices
  are clamped to the string, and an empty string results when the range is empty.
  \<open>None\<close> is an omitted \<open>end\<close>.
\<close>

definition slice_str :: "int \<Rightarrow> int option \<Rightarrow> 'a list \<Rightarrow> 'a list" where
  "slice_str start fin s =
     (let len = int (length s);
          from = (if start < 0 then max (len + start) 0 else min start len);
          e = (case fin of None \<Rightarrow> len | Some f \<Rightarrow> f);
          to = (if e < 0 then max (len + e) 0 else min e len)
      in take (nat (to - from)) (drop (nat from) s))"

text \<open>\<open>Array.prototype.join\<close> on an array of strings.\<close>

fun join :: "jsstring \<Rightarrow> jsstring list \<Rightarrow> jsstring" where
  "join sep [] = []"
| "join sep [x] = x"
| "join sep (x # y # ys) = x @ sep @ join sep (y # ys)"

text \<open>The decimal digits of a natural number, most significant first.\<close>

fun digits :: "nat \<Rightarrow> jsstring" where
  "digits n = (if n < 10 then [of_nat (48 + n)] else digits (n div 10) @ [of_nat (48 + n mod 10)])"

declare digits.simps [simp del]

text \<open>A JavaScript string is falsy exactly when it is \<open>undefined\<close> or empty.\<close>

definition truthy :: "jsstring option \<Rightarrow> bool" where
  "truthy v = (case v of None \<Rightarrow> False | Some s \<Rightarrow> s \<noteq> [])"

section \<open>Terminal output\<close>

text \<open>
  A chalk style applied to a string gives the string wrapped in escape codes; the model
  keeps the style next to the string. A line of output is a list of styled segments, in
  the order the template literal concatenates them.
\<close>

datatype style =
    Plain | Red | Green | Yellow | Cyan | White | Dim | Bold
  | Orange | BgRedWhite | RedBold | GreenBold | YellowBold

type_synonym styled = "(style \<times> jsstring) list"

section \<open>Numbers\<close>

text \<open>
  A JavaScript number is an IEEE 754 binary64 value. Finite values are modelled by the
  rational they denote (the two zeros coincide: no operation of the program tells them
  apart).
\<close>

datatype number = Finite rat | PosInfinity | NegInfinity | NaN

definition round_half_even :: "rat \<Rightarrow> int" where
  "round_half_even y =
     (let f = \<lfloor>y\<rfloor>; d = y - of_int f
      in if d < 1 / 2 then f else if 1 / 2 < d then f + 1 else if even f then f else f + 1)"

text \<open>\<open>binary_exponent x\<close> is the \<open>e\<close> with \<open>2 powi e \<le> x < 2 powi (e + 1)\<close>, for \<open>x > 0\<close>.\<close>

definition binary_exponent :: "rat \<Rightarrow> int" where
  "binary_exponent x =
     (let (p, q) = quotient_of x; d = bitlen p - bitlen q
      in if 2 powi d \<le> x then d else d - 1)"

text \<open>
  Rounding of an exact result to binary64, to nearest with ties to even: 53 significant
  bits, the smallest spacing \<open>2 powi (- 1074)\<close>, and overflow to an infinity from
  \<open>2 powi 1024\<close> on.
\<close>

definition round_double :: "rat \<Rightarrow> number" where
  "round_double x =
     (if x = 0 then Finite 0
      else let a = \<bar>x\<bar>;
               u = max (binary_exponent a - 52) (- 1074);
               y = of_int (round_half_even (a / 2 powi u)) * 2 powi u
           in if 2 powi 1024 \<le> y then (if x < 0 then NegInfinity else PosInfinity)
              else Finite (if x < 0 then - y else y))"

definition is_double :: "rat \<Rightarrow> bool" where
  "is_double x = (round_double x = Finite x)"

text \<open>The operator \<open>*\<close> on numbers.\<close>

fun multiply :: "number \<Rightarrow> number \<Rightarrow> number" where
  "multiply (Finite a) (Finite b) = round_double (a * b)"
| "multiply NaN _ = NaN"
| "multiply _ NaN = NaN"
| "multiply (Finite a) PosInfinity = (if a = 0 then NaN else if 0 < a then PosInfinity else NegInfinity)"
| "multiply (Finite a) NegInfinity = (if a = 0 then NaN else if 0 < a then NegInfinity else PosInfinity)"
| "multiply PosInfinity (Finite b) = (if b = 0 then NaN else if 0 < b then PosInfinity else NegInfinity)"
| "multiply NegInfinity (Finite b) = (if b = 0 then NaN else if 0 < b then NegInfinity else PosInfinity)"
| "multiply PosInfinity PosInfinity = PosInfinity"
| "multiply PosInfinity NegInfinity = NegInfinity"
| "multiply NegInfinity PosInfinity = NegInfinity"
| "multiply NegInfinity NegInfinity = PosInfinity"

section \<open>The runtime\<close>

text \<open>
  What a thrown value can be. \<open>NotAFunction\<close> and \<open>UndefinedThis\<close> are the two \<open>TypeError\<close>s
  of calling a value that is not callable and of a built-in method that converts an
  undefined \<open>this\<close> to an object; \<open>JSONSyntax\<close> is the \<open>SyntaxError\<close> of \<open>JSON.parse\<close>;
  \<open>Thrown m\<close> is an \<open>Error\<close> with message \<open>m\<close> (a rejected SDK call, a failed file
  operation).
\<close>

datatype exn = NotAFunction | UndefinedThis | JSONSyntax | Thrown jsstring

text \<open>
  The parts of the JavaScript engine and of the operating system that the program
  relies on and that are given from outside: upper-casing of strings with code units
  outside ASCII, \<open>Number::toString\<close> of a finite number, the message texts of built-in
  errors, the path of the configuration file, and the file operations that fail
  (\<open>write_error path = Some m\<close> when writing to \<open>path\<close> throws an error with message \<open>m\<close>).
\<close>

record runtime =
  upper :: "jsstring \<Rightarrow> jsstring"
  number_text :: "rat \<Rightarrow> jsstring"
  engine_message :: "exn \<Rightarrow> jsstring"
  config_path :: jsstring
  write_error :: "jsstring \<Rightarrow> jsstring option"
  read_error :: "jsstring \<Rightarrow> jsstring"

definition message :: "runtime \<Rightarrow> exn \<Rightarrow> jsstring" where
  "message rt e = (case e of Thrown m \<Rightarrow> m | _ \<Rightarrow> engine_message rt e)"

definition ascii :: "16 word \<Rightarrow> bool" where
  "ascii c = (c < 0x80)"

definition upper_ascii :: "16 word \<Rightarrow> 16 word" where
  "upper_ascii c = (if 0x61 \<le> c \<and> c \<le> 0x7A then c - 0x20 else c)"

definition toUpperCase :: "runtime \<Rightarrow> jsstring \<Rightarrow> jsstring" where
  "toUpperCase rt s = (if list_all ascii s then map upper_ascii s else upper rt s)"

text \<open>\<open>String(n)\<close> for a number.\<close>

definition number_to_string :: "runtime \<Rightarrow> number \<Rightarrow> jsstring" where
  "number_to_string rt v =
     (case v of Finite x \<Rightarrow> number_text rt x | PosInfinity \<Rightarrow> lit ''Infinity''
      | NegInfinity \<Rightarrow> lit ''-Infinity'' | NaN \<Rightarrow> lit ''NaN'')"

text \<open>
  \<open>Number.prototype.toFixed(f)\<close>: a value that is not finite is shown by
  \<open>Number::toString\<close>; the sign is split off; from \<open>10 ^ 21\<close> on the magnitude is shown by
  \<open>Number::toString\<close>; otherwise \<open>n\<close> is the integer for which \<open>n / 10 ^ f\<close> is closest to the
  magnitude, the larger one of two, and its digits are shown with \<open>f\<close> of them after the
  point.
\<close>

definition toFixed :: "runtime \<Rightarrow> nat \<Rightarrow> number \<Rightarrow> jsstring" where
  "toFixed rt f v =
     (case v of
        Finite x \<Rightarrow>
          (let s = (if x < 0 then lit ''-'' else []); a = \<bar>x\<bar>
           in if 10 ^ 21 \<le> a then s @ number_text rt a
              else let y = a * 10 ^ f; lo = \<lfloor>y\<rfloor>;
                       n = nat (if y - of_int lo < of_int (lo + 1) - y then lo else lo + 1);
                       m = replicate (f + 1 - length (digits n)) 0x30 @ digits n;
                       k = length m
                   in if f = 0 then s @ digits n
                      else s @ take (k - f) m @ lit ''.'' @ drop (k - f) m)
      | _ \<Rightarrow> number_to_string rt v)"

text \<open>The expression \<open>(r * 100).toFixed(0) + '%'\<close> of the formatters.\<close>

definition percent :: "runtime \<Rightarrow> number \<Rightarrow> jsstring" where
  "percent rt r = toFixed rt 0 (multiply r (Finite 100)) @ lit ''%''"

section \<open>Colour tables\<close>

text \<open>
  \<open>colors[severity]\<close> reads a property of an object literal. A name that is not an own
  property of the literal is looked up in \<open>Object.prototype\<close>, whose properties are the
  constructor \<open>Object\<close>, the accessor \<open>__proto__\<close> (which yields \<open>Object.prototype\<close> itself)
  and ten methods; any other name yields \<open>undefined\<close>.
\<close>

datatype jsvalue =
  Undefined | Chalk style | ObjectConstructor | ObjectPrototype | PrototypeMethod jsstring

definition object_prototype_methods :: "jsstring list" where
  "object_prototype_methods =
     [lit ''__defineGetter__'', lit ''__defineSetter__'', lit ''hasOwnProperty'',
      lit ''__lookupGetter__'', lit ''__lookupSetter__'', lit ''isPrototypeOf'',
      lit ''propertyIsEnumerable'', lit ''toString'', lit ''valueOf'', lit ''toLocaleString'']"

definition get_property :: "(jsstring \<times> style) list \<Rightarrow> jsstring \<Rightarrow> jsvalue" where
  "get_property obj key =
     (case map_of obj key of
        Some st \<Rightarrow> Chalk st
      | None \<Rightarrow>
          if key = lit ''constructor'' then ObjectConstructor
          else if key = lit ''__proto__'' then ObjectPrototype
          else if key \<in> set object_prototype_methods then PrototypeMethod key
          else Undefined)"

text \<open>\<open>a || b\<close>: of the values above only \<open>undefined\<close> is falsy.\<close>

definition or_else :: "jsvalue \<Rightarrow> jsvalue \<Rightarrow> jsvalue" where
  "or_else a b = (if a = Undefined then b else a)"

text \<open>
  The call \<open>(f)(arg)\<close> of a looked-up value on a string, with \<open>this\<close> undefined, and the
  conversion of the result to a string by the template literal around it. A chalk
  function styles its argument. \<open>Object(arg)\<close> wraps the string, which the template shows
  unstyled. \<open>Object.prototype.toString\<close> answers \<open>[object Undefined]\<close> and \<open>isPrototypeOf\<close>
  answers \<open>false\<close> for an argument that is not an object; the other methods convert
  \<open>this\<close> to an object first and throw. \<open>Object.prototype\<close> itself is not callable.
\<close>

fun call_value :: "jsvalue \<Rightarrow> jsstring \<Rightarrow> exn + (style \<times> jsstring)" where
  "call_value (Chalk st) arg = Inr (st, arg)"
| "call_value ObjectConstructor arg = Inr (Plain, arg)"
| "call_value ObjectPrototype arg = Inl NotAFunction"
| "call_value Undefined arg = Inl NotAFunction"
| "call_value (PrototypeMethod m) arg =
     (if m = lit ''toString'' then Inr (Plain, lit ''[object Undefined]'')
      else if m = lit ''isPrototypeOf'' then Inr (Plain, lit ''false'')
      else Inl UndefinedThis)"

definition severity_colors :: "(jsstring \<times> style) list" where
  "severity_colors =
     [(lit ''low'', Yellow), (lit ''medium'', Orange), (lit ''high'', Red),
      (lit ''critical'', BgRedWhite)]"

definition formatSeverity :: "runtime \<Rightarrow> jsstring \<Rightarrow> exn + (style \<times> jsstring)" where
  "formatSeverity rt severity =
     call_value (or_else (get_property severity_colors severity) (Chalk White))
       (toUpperCase rt severity)"

definition risk_colors :: "(jsstring \<times> style) list" where
  "risk_colors =
     [(lit ''none'', Green), (lit ''safe'', Green), (lit ''low'', Yellow),
      (lit ''medium'', Orange), (lit ''high'', Red), (lit ''critical'', BgRedWhite)]"

definition formatRisk :: "runtime \<Rightarrow> jsstring \<Rightarrow> exn + (style \<times> jsstring)" where
  "formatRisk rt risk =
     call_value (or_else (get_property risk_colors risk) (Chalk White)) (toUpperCase rt risk)"

section \<open>JSON\<close>

text \<open>
  A value of the JSON data model, as \<open>JSON.parse\<close> produces it and \<open>JSON.stringify\<close> reads it.
  An object lists its properties in enumeration order.
\<close>

datatype json =
    JNull | JBool bool | JNumber number | JString jsstring
  | JArray "json list" | JObject "(jsstring \<times> json) list"

subsection \<open>\<open>JSON.stringify(value, null, 2)\<close>\<close>

definition hex_digit :: "nat \<Rightarrow> 16 word" where
  "hex_digit n = (if n < 10 then of_nat (48 + n) else of_nat (87 + n))"

definition hex4 :: "16 word \<Rightarrow> jsstring" where
  "hex4 c =
     (let n = unat c
      in [hex_digit (n div 4096), hex_digit (n div 256 mod 16), hex_digit (n div 16 mod 16),
          hex_digit (n mod 16)])"

definition high_surrogate :: "16 word \<Rightarrow> bool" where
  "high_surrogate c = (0xD800 \<le> c \<and> c \<le> 0xDBFF)"

definition low_surrogate :: "16 word \<Rightarrow> bool" where
  "low_surrogate c = (0xDC00 \<le> c \<and> c \<le> 0xDFFF)"

text \<open>
  One code unit inside a quoted string: the two-character escapes, \<open>\<^verbatim>\<open>\u\<close>\<close> and four
  hexadecimal digits for the other control characters and for a surrogate that stands
  alone, and the code unit itself otherwise.
\<close>

definition escape_unit :: "16 word \<Rightarrow> jsstring" where
  "escape_unit c =
     (if c = 0x08 then [0x5C, 0x62]
      else if c = 0x09 then [0x5C, 0x74]
      else if c = 0x0A then [0x5C, 0x6E]
      else if c = 0x0C then [0x5C, 0x66]
      else if c = 0x0D then [0x5C, 0x72]
      else if c = 0x22 then [0x5C, 0x22]
      else if c = 0x5C then [0x5C, 0x5C]
      else if c < 0x20 \<or> high_surrogate c \<or> low_surrogate c then [0x5C, 0x75] @ hex4 c
      else [c])"

fun quote_units :: "jsstring \<Rightarrow> jsstring" where
  "quote_units [] = []"
| "quote_units [c] = escape_unit c"
| "quote_units (c # d # cs) =
     (if high_surrogate c \<and> low_surrogate d then c # d # quote_units cs
      else escape_unit c @ quote_units (d # cs))"

definition quote :: "jsstring \<Rightarrow> jsstring" where
  "quote s = [0x22] @ quote_units s @ [0x22]"

text \<open>
  The serialisation at the current indentation \<open>ind\<close>, with a gap of two spaces: an empty
  array or object on one line, any other with one element or member per line.
\<close>

fun serialize :: "runtime \<Rightarrow> jsstring \<Rightarrow> json \<Rightarrow> jsstring" where
  "serialize rt ind JNull = lit ''null''"
| "serialize rt ind (JBool b) = (if b then lit ''true'' else lit ''false'')"
| "serialize rt ind (JNumber n) =
     (case n of Finite x \<Rightarrow> number_text rt x | _ \<Rightarrow> lit ''null'')"
| "serialize rt ind (JString s) = quote s"
| "serialize rt ind (JArray vs) =
     (if vs = [] then lit ''[]''
      else lit ''['' @ [0x0A] @ (ind @ lit ''  '')
           @ join (lit '','' @ [0x0A] @ (ind @ lit ''  ''))
               (map (serialize rt (ind @ lit ''  '')) vs)
           @ [0x0A] @ ind @ lit '']'')"
| "serialize rt ind (JObject ms) =
     (if ms = [] then lit ''{}''
      else lit ''{'' @ [0x0A] @ (ind @ lit ''  '')
           @ join (lit '','' @ [0x0A] @ (ind @ lit ''  ''))
               (map (\<lambda>m. quote (fst m) @ lit '': '' @ serialize rt (ind @ lit ''  '') (snd m)) ms)
           @ [0x0A] @ ind @ lit ''}'')"

definition stringify :: "runtime \<Rightarrow> json \<Rightarrow> jsstring" where
  "stringify rt v = serialize rt [] v"

subsection \<open>\<open>JSON.parse\<close>\<close>

definition whitespace :: "16 word \<Rightarrow> bool" where
  "whitespace c = (c = 0x20 \<or> c = 0x09 \<or> c = 0x0A \<or> c = 0x0D)"

definition skip_ws :: "jsstring \<Rightarrow> jsstring" where
  "skip_ws cs = dropWhile whitespace cs"

definition is_digit :: "16 word \<Rightarrow> bool" where
  "is_digit c = (0x30 \<le> c \<and> c \<le> 0x39)"

definition hex_value :: "16 word \<Rightarrow> nat option" where
  "hex_value c =
     (if 0x30 \<le> c \<and> c \<le> 0x39 then Some (unat c - 48)
      else if 0x61 \<le> c \<and> c \<le> 0x66 then Some (unat c - 87)
      else if 0x41 \<le> c \<and> c \<le> 0x46 then Some (unat c - 55)
      else None)"

definition hex4_value :: "16 word \<Rightarrow> 16 word \<Rightarrow> 16 word \<Rightarrow> 16 word \<Rightarrow> 16 word option" where
  "hex4_value a b c d =
     (case (hex_value a, hex_value b, hex_value c, hex_value d) of
        (Some i, Some j, Some k, Some l) \<Rightarrow> Some (of_nat (4096 * i + 256 * j + 16 * k + l))
      | _ \<Rightarrow> None)"

definition unescape :: "16 word \<Rightarrow> 16 word option" where
  "unescape e =
     (if e = 0x22 then Some 0x22
      else if e = 0x5C then Some 0x5C
      else if e = 0x2F then Some 0x2F
      else if e = 0x62 then Some 0x08
      else if e = 0x66 then Some 0x0C
      else if e = 0x6E then Some 0x0A
      else if e = 0x72 then Some 0x0D
      else if e = 0x74 then Some 0x09
      else None)"

text \<open>The characters of a string after its opening quote, up to the closing quote.\<close>

fun parse_chars :: "jsstring \<Rightarrow> (jsstring \<times> jsstring) option" where
  "parse_chars [] = None"
| "parse_chars (c # cs) =
     (if c = 0x22 then Some ([], cs)
      else if c < 0x20 then None
      else if c = 0x5C then
        (case cs of
           [] \<Rightarrow> None
         | e # rest \<Rightarrow>
             if e = 0x75 then
               (case rest of
                  h1 # h2 # h3 # h4 # rest' \<Rightarrow>
                    (case hex4_value h1 h2 h3 h4 of
                       None \<Rightarrow> None
                     | Some u \<Rightarrow>
                         (case parse_chars rest' of
                            None \<Rightarrow> None
                          | Some (s, r) \<Rightarrow> Some (u # s, r)))
                | _ \<Rightarrow> None)
             else
               (case unescape e of
                  None \<Rightarrow> None
                | Some u \<Rightarrow>
                    (case parse_chars rest of
                       None \<Rightarrow> None
                     | Some (s, r) \<Rightarrow> Some (u # s, r))))
      else (case parse_chars cs of None \<Rightarrow> None | Some (s, r) \<Rightarrow> Some (c # s, r)))"

definition decimal :: "jsstring \<Rightarrow> nat" where
  "decimal ds = foldl (\<lambda>n c. 10 * n + (unat c - 48)) 0 ds"

text \<open>
  A number: an optional minus sign, an integer part without a superfluous leading zero,
  an optional fraction and an optional exponent, each read by a function that returns
  what it found and the rest of the text. The value is the decimal value of the lexeme
  rounded to binary64.
\<close>

definition starts :: "16 word \<Rightarrow> jsstring \<Rightarrow> bool" where
  "starts c cs = (case cs of [] \<Rightarrow> False | d # _ \<Rightarrow> d = c)"

definition sign_part :: "jsstring \<Rightarrow> bool \<times> jsstring" where
  "sign_part cs = (if starts 0x2D cs then (True, tl cs) else (False, cs))"

definition digits_part :: "jsstring \<Rightarrow> jsstring \<times> jsstring" where
  "digits_part cs = (takeWhile is_digit cs, dropWhile is_digit cs)"

definition fraction_part :: "jsstring \<Rightarrow> jsstring option \<times> jsstring" where
  "fraction_part cs =
     (if starts 0x2E cs then (Some (fst (digits_part (tl cs))), snd (digits_part (tl cs)))
      else (None, cs))"

definition exponent_part :: "jsstring \<Rightarrow> (bool \<times> jsstring) option \<times> jsstring" where
  "exponent_part cs =
     (if starts 0x65 cs \<or> starts 0x45 cs then
        (let signed = (starts 0x2D (tl cs) \<or> starts 0x2B (tl cs));
             ds = digits_part (if signed then tl (tl cs) else tl cs)
         in (Some (starts 0x2D (tl cs), fst ds), snd ds))
      else (None, cs))"

definition parse_number :: "jsstring \<Rightarrow> (number \<times> jsstring) option" where
  "parse_number cs =
     (let (neg, cs1) = sign_part cs;
          (ip, cs2) = digits_part cs1;
          (fp, cs3) = fraction_part cs2;
          (ep, cs4) = exponent_part cs3;
          frac = (case fp of None \<Rightarrow> [] | Some ds \<Rightarrow> ds);
          mantissa = of_nat (decimal (ip @ frac)) / 10 ^ length frac;
          magnitude =
            (case ep of
               None \<Rightarrow> mantissa
             | Some (eneg, ds) \<Rightarrow>
                 if eneg then mantissa / 10 ^ decimal ds else mantissa * 10 ^ decimal ds)
      in if ip = [] then None
         else if 1 < length ip \<and> hd ip = 0x30 then None
         else if fp = Some [] then None
         else if (case ep of None \<Rightarrow> False | Some (eneg, ds) \<Rightarrow> ds = []) then None
         else Some (round_double (if neg then - magnitude else magnitude), cs4))"

text \<open>
  The recursive descent over values. The first argument bounds the number of calls in a
  row and is consumed by one per call; \<open>JSON_parse\<close> starts with more than any text of its
  length can use. \<open>parse_elements\<close> reads the elements of an array after its first
  bracket, \<open>parse_members\<close> the members of an object after its first brace.
\<close>

fun parse_value :: "nat \<Rightarrow> jsstring \<Rightarrow> (json \<times> jsstring) option"
  and parse_elements :: "nat \<Rightarrow> jsstring \<Rightarrow> (json list \<times> jsstring) option"
  and parse_members :: "nat \<Rightarrow> jsstring \<Rightarrow> ((jsstring \<times> json) list \<times> jsstring) option"
where
  "parse_value 0 cs = None"
| "parse_value (Suc n) cs =
     (case skip_ws cs of
        [] \<Rightarrow> None
      | c # rest \<Rightarrow>
          if c = 0x5B then
            (case skip_ws rest of
               [] \<Rightarrow> None
             | d # rest' \<Rightarrow>
                 if d = 0x5D then Some (JArray [], rest')
                 else (case parse_elements n rest of
                         None \<Rightarrow> None
                       | Some (vs, r) \<Rightarrow> Some (JArray vs, r)))
          else if c = 0x7B then
            (case skip_ws rest of
               [] \<Rightarrow> None
             | d # rest' \<Rightarrow>
                 if d = 0x7D then Some (JObject [], rest')
                 else (case parse_members n rest of
                         None \<Rightarrow> None
                       | Some (ms, r) \<Rightarrow> Some (JObject ms, r)))
          else if c = 0x22 then
            (case parse_chars rest of None \<Rightarrow> None | Some (s, r) \<Rightarrow> Some (JString s, r))
          else if take 4 (c # rest) = lit ''true'' then Some (JBool True, drop 4 (c # rest))
          else if take 5 (c # rest) = lit ''false'' then Some (JBool False, drop 5 (c # rest))
          else if take 4 (c # rest) = lit ''null'' then Some (JNull, drop 4 (c # rest))
          else (case parse_number (c # rest) of
                  None \<Rightarrow> None
                | Some (x, r) \<Rightarrow> Some (JNumber x, r)))"
| "parse_elements 0 cs = None"
| "parse_elements (Suc n) cs =
     (case parse_value n cs of
        None \<Rightarrow> None
      | Some (v, r) \<Rightarrow>
          (case skip_ws r of
             [] \<Rightarrow> None
           | c # rest \<Rightarrow>
               if c = 0x5D then Some ([v], rest)
               else if c = 0x2C then
                 (case parse_elements n rest of
                    None \<Rightarrow> None
                  | Some (vs, r') \<Rightarrow> Some (v # vs, r'))
               else None))"
| "parse_members 0 cs = None"
| "parse_members (Suc n) cs =
     (case skip_ws cs of
        [] \<Rightarrow> None
      | q # rest \<Rightarrow>
          if q \<noteq> 0x22 then None
          else
            (case parse_chars rest of
               None \<Rightarrow> None
             | Some (k, r) \<Rightarrow>
                 (case skip_ws r of
                    [] \<Rightarrow> None
                  | colon # r1 \<Rightarrow>
                      if colon \<noteq> 0x3A then None
                      else
                        (case parse_value n r1 of
                           None \<Rightarrow> None
                         | Some (v, r2) \<Rightarrow>
                             (case skip_ws r2 of
                                [] \<Rightarrow> None
                              | c # r3 \<Rightarrow>
                                  if c = 0x7D then Some ([(k, v)], r3)
                                  else if c = 0x2C then
                                    (case parse_members n r3 of
                                       None \<Rightarrow> None
                                     | Some (ms, r') \<Rightarrow> Some ((k, v) # ms, r'))
                                  else None)))))"

text \<open>
  \<open>JSON.parse(text)\<close>: one value with nothing but white space around it; \<open>None\<close> is the
  thrown \<open>SyntaxError\<close>.
\<close>

definition JSON_parse :: "jsstring \<Rightarrow> json option" where
  "JSON_parse s =
     (case parse_value (2 * length s + 2) s of
        None \<Rightarrow> None
      | Some (v, r) \<Rightarrow> if skip_ws r = [] then Some v else None)"

subsection \<open>Values that print and parse back\<close>

text \<open>
  The text of a number is the engine's (\<open>number_text\<close> of the runtime), and
  \<open>JSON.stringify\<close> prints \<open>NaN\<close> and the infinities as \<open>null\<close>. A value is well
  printed when every number in it is finite and the engine's text for it is read back
  by \<open>parse_number\<close> as the same number, with nothing left over.
\<close>

fun well_printed :: "runtime \<Rightarrow> json \<Rightarrow> bool" where
  "well_printed rt (JNumber n) =
     (case n of Finite x \<Rightarrow> parse_number (number_text rt x) = Some (Finite x, []) | _ \<Rightarrow> False)"
| "well_printed rt (JArray vs) = list_all (well_printed rt) vs"
| "well_printed rt (JObject ms) = list_all (\<lambda>m. well_printed rt (snd m)) ms"
| "well_printed rt v = True"

text \<open>
  The text after a number: empty, or starting with a code unit that cannot continue the
  number. The first code unit of a serialised value is one of those of \<open>value_start\<close>.
\<close>

definition number_end :: "jsstring \<Rightarrow> bool" where
  "number_end q = (case q of [] \<Rightarrow> True | c # _ \<Rightarrow>
      \<not> is_digit c \<and> c \<noteq> 0x2E \<and> c \<noteq> 0x65 \<and> c \<noteq> 0x45 \<and> c \<noteq> 0x2B \<and> c \<noteq> 0x2D)"

definition value_start :: "16 word \<Rightarrow> bool" where
  "value_start c =
     (c = 0x6E \<or> c = 0x74 \<or> c = 0x66 \<or> c = 0x22 \<or> c = 0x5B \<or> c = 0x7B \<or> c = 0x2D \<or> is_digit c)"

section \<open>The command line and the SDK\<close>

text \<open>
  A parsed invocation: the command with its positional arguments and options as
  commander hands them to the action (\<open>None\<close> for an option that was not given, a boolean
  for a flag).
\<close>

datatype command =
    Login jsstring
  | Logout
  | Whoami
  | Detect_bullying jsstring
  | Detect_grooming jsstring "jsstring option"
  | Detect_unsafe jsstring
  | Analyze jsstring
  | Emotions jsstring
  | Action_plan jsstring "jsstring option" "jsstring option" "jsstring option"
  | Account_delete bool
  | Account_export "jsstring option"
  | Account_consent_record jsstring jsstring
  | Account_consent_status "jsstring option"
  | Account_consent_withdraw jsstring
  | Account_audit_logs "jsstring option" "jsstring option"
  | Breach_log jsstring jsstring jsstring jsstring jsstring jsstring
  | Breach_list "jsstring option" "jsstring option"
  | Breach_get jsstring
  | Breach_update jsstring jsstring "jsstring option" "jsstring option"
  | Voice_file jsstring "jsstring option" "jsstring option" "jsstring option"
  | Image_file jsstring "jsstring option"
  | Webhook_list
  | Webhook_create jsstring jsstring jsstring
  | Webhook_update jsstring "jsstring option" "jsstring option" "jsstring option" bool bool
  | Webhook_delete jsstring
  | Webhook_test jsstring
  | Webhook_regenerate_secret jsstring
  | Pricing bool
  | Usage_monthly
  | Usage_history "jsstring option"
  | Usage_by_tool "jsstring option"

text \<open>The results of the SDK that the formatters below read, with the fields they read.\<close>

record scored =
  risk_score :: number
  recommended_action :: jsstring

record detection = scored +
  confidence :: number
  rationale :: jsstring

record graded = detection +
  severity :: jsstring

record bullying_result = graded +
  is_bullying :: bool
  bullying_type :: "jsstring list option"

record unsafe_result = graded +
  unsafe :: bool
  categories :: "jsstring list option"

record grooming_result = detection +
  grooming_risk :: jsstring
  flags :: "jsstring list option"

record analyze_result = scored +
  risk_level :: jsstring
  summary :: jsstring

record delete_result =
  deleted_count :: number

record breach =
  breach_id :: jsstring
  title :: jsstring
  breach_severity :: jsstring
  status :: jsstring
  notification_status :: jsstring
  reported_by :: jsstring
  notification_deadline :: jsstring
  created_at :: jsstring
  updated_at :: jsstring
  description :: jsstring
  affected_user_ids :: "jsstring list"
  data_categories :: "jsstring list"

text \<open>
  The SDK client, given from outside. \<open>construct key\<close> is \<open>Some m\<close> when the constructor
  throws an error with message \<open>m\<close>. Every method takes the API key of the client first
  and either rejects with a message (\<open>Inl\<close>) or resolves with a result. \<open>detectGrooming\<close>
  takes the parsed messages and the age option as given. For the commands whose result
  types are not part of the repository, \<open>other\<close> takes the invocation (and the content
  of the file that \<open>voice\<close> and \<open>image\<close> read) and resolves with the lines that the
  action logs for the result, each line either logged or throwing while it is built.
\<close>

record sdk =
  construct :: "jsstring \<Rightarrow> jsstring option"
  detectBullying :: "jsstring \<Rightarrow> jsstring \<Rightarrow> jsstring + bullying_result"
  detectGrooming :: "jsstring \<Rightarrow> json \<Rightarrow> jsstring option \<Rightarrow> jsstring + grooming_result"
  detectUnsafe :: "jsstring \<Rightarrow> jsstring \<Rightarrow> jsstring + unsafe_result"
  analyze :: "jsstring \<Rightarrow> jsstring \<Rightarrow> jsstring + analyze_result"
  deleteAccountData :: "jsstring \<Rightarrow> jsstring + delete_result"
  exportAccountData :: "jsstring \<Rightarrow> jsstring + json"
  getBreach :: "jsstring \<Rightarrow> jsstring \<Rightarrow> jsstring + breach"
  other :: "jsstring \<Rightarrow> command \<Rightarrow> jsstring option \<Rightarrow> jsstring + (exn + styled) list"

section \<open>The process\<close>

text \<open>
  What persists between invocations: the configuration store and the files.
\<close>

record world =
  store :: "jsstring \<rightharpoonup> jsstring"
  files :: "jsstring \<rightharpoonup> jsstring"

text \<open>
  Modelled from the spec: the credential store of section 4.1 (the \<open>conf\<close> package, which
  is not part of the repository): \<open>set\<close> overwrites the persisted value, \<open>get\<close> returns it
  or an absent marker, \<open>delete\<close> removes it and succeeds when there is none.
\<close>

definition conf_set :: "jsstring \<Rightarrow> jsstring \<Rightarrow> world \<Rightarrow> world" where
  "conf_set k v w = w\<lparr>store := (store w)(k \<mapsto> v)\<rparr>"

definition conf_get :: "jsstring \<Rightarrow> world \<Rightarrow> jsstring option" where
  "conf_get k w = store w k"

definition conf_delete :: "jsstring \<Rightarrow> world \<Rightarrow> world" where
  "conf_delete k w = w\<lparr>store := (store w)(k := None)\<rparr>"

text \<open>
  What one invocation does, in order: the spinner, the lines of \<open>console.log\<close> and
  \<open>console.error\<close>, the calls of SDK methods (by name) and the file operations.
\<close>

datatype event =
    SpinnerStart jsstring | SpinnerStop | Log styled | Error styled
  | Call jsstring | ReadFile jsstring | WriteFile jsstring jsstring

record outcome =
  events :: "event list"
  exit_status :: nat
  world_after :: world

definition stdout :: "outcome \<Rightarrow> styled list" where
  "stdout out = List.map_filter (\<lambda>e. case e of Log t \<Rightarrow> Some t | _ \<Rightarrow> None) (events out)"

definition stderr :: "outcome \<Rightarrow> styled list" where
  "stderr out = List.map_filter (\<lambda>e. case e of Error t \<Rightarrow> Some t | _ \<Rightarrow> None) (events out)"

definition calls :: "outcome \<Rightarrow> jsstring list" where
  "calls out = List.map_filter (\<lambda>e. case e of Call m \<Rightarrow> Some m | _ \<Rightarrow> None) (events out)"

text \<open>
  A sequence of \<open>console.log\<close> statements whose arguments may throw while they are built:
  the lines before the first throw are logged.
\<close>

fun log_all :: "(exn + styled) list \<Rightarrow> event list \<times> exn option" where
  "log_all [] = ([], None)"
| "log_all (Inl e # rest) = ([], Some e)"
| "log_all (Inr t # rest) = (Log t # fst (log_all rest), snd (log_all rest))"

text \<open>
  \<open>getClient\<close>: without a stored key (\<open>!apiKey\<close> holds for an absent and for an empty
  string) the error line is written and the process exits with status 1; otherwise the
  client is constructed.
\<close>

datatype client = Exited | Failed exn | Client jsstring

definition not_logged_in :: styled where
  "not_logged_in = [(Red, lit ''Not logged in. Run: tuteliq login <api-key>'')]"

definition getClient :: "sdk \<Rightarrow> world \<Rightarrow> client" where
  "getClient s w =
     (case conf_get (lit ''apiKey'') w of
        None \<Rightarrow> Exited
      | Some apiKey \<Rightarrow>
          if apiKey = [] then Exited
          else (case construct s apiKey of Some m \<Rightarrow> Failed (Thrown m) | None \<Rightarrow> Client apiKey))"

text \<open>The \<open>catch\<close> block of every action: \<open>console.error(chalk.red('Error:'), message)\<close>.\<close>

definition error_line :: "runtime \<Rightarrow> exn \<Rightarrow> styled" where
  "error_line rt e = [(Red, lit ''Error:''), (Plain, lit '' ''), (Plain, message rt e)]"

text \<open>
  The frame of an authenticated action: the spinner starts, \<open>getClient\<close> runs inside the
  \<open>try\<close>, then the body; whatever is thrown stops the spinner, is reported and ends
  the process with status 1.
\<close>

definition attempt ::
  "runtime \<Rightarrow> sdk \<Rightarrow> jsstring \<Rightarrow> (jsstring \<Rightarrow> event list \<times> exn option \<times> world) \<Rightarrow> world \<Rightarrow> outcome"
where
  "attempt rt s label body w =
     (case getClient s w of
        Exited \<Rightarrow>
          \<lparr>events = [SpinnerStart label, Error not_logged_in], exit_status = 1, world_after = w\<rparr>
      | Failed e \<Rightarrow>
          \<lparr>events = [SpinnerStart label, SpinnerStop, Error (error_line rt e)],
           exit_status = 1, world_after = w\<rparr>
      | Client key \<Rightarrow>
          (case body key of
             (evs, None, w') \<Rightarrow>
               \<lparr>events = SpinnerStart label # evs, exit_status = 0, world_after = w'\<rparr>
           | (evs, Some e, w') \<Rightarrow>
               \<lparr>events = SpinnerStart label # evs @ [SpinnerStop, Error (error_line rt e)],
                exit_status = 1, world_after = w'\<rparr>))"

text \<open>
  One awaited SDK call followed by the formatter: a rejection is thrown; a result stops
  the spinner and is rendered line by line.
\<close>

definition respond ::
  "jsstring \<Rightarrow> jsstring + 'r \<Rightarrow> ('r \<Rightarrow> (exn + styled) list) \<Rightarrow> world \<Rightarrow> event list \<times> exn option \<times> world"
where
  "respond method res render w =
     (case res of
        Inl m \<Rightarrow> ([Call method], Some (Thrown m), w)
      | Inr r \<Rightarrow>
          (Call method # SpinnerStop # fst (log_all (render r)), snd (log_all (render r)), w))"

section \<open>The formatters\<close>

definition severity_line :: "jsstring \<Rightarrow> exn + (style \<times> jsstring) \<Rightarrow> exn + styled" where
  "severity_line label sev = map_sum id (\<lambda>seg. [(Plain, label), seg]) sev"

definition render_bullying :: "runtime \<Rightarrow> bullying_result \<Rightarrow> (exn + styled) list" where
  "render_bullying rt r =
     [Inr [],
      Inr [if is_bullying r then (RedBold, WARNING @ lit '' BULLYING DETECTED'')
           else (GreenBold, CHECK @ lit '' No bullying detected'')],
      Inr [],
      severity_line (lit ''Severity:    '') (formatSeverity rt (severity r)),
      Inr [(Plain, lit ''Confidence:  ''), (Cyan, percent rt (confidence r))],
      Inr [(Plain, lit ''Risk Score:  ''), (Cyan, percent rt (risk_score r))]]
     @ (case bullying_type r of
          None \<Rightarrow> []
        | Some ts \<Rightarrow>
            if 0 < length ts then [Inr [(Plain, lit ''Types:       '' @ join (lit '', '') ts)]]
            else [])
     @ [Inr [],
        Inr [(Dim, lit ''Rationale:'')],
        Inr [(Plain, rationale r)],
        Inr [],
        Inr [(Plain, lit ''Action: ''), (Yellow, recommended_action r)]]"

definition render_grooming :: "runtime \<Rightarrow> grooming_result \<Rightarrow> (exn + styled) list" where
  "render_grooming rt r =
     [Inr [],
      Inr [if grooming_risk r \<noteq> lit ''none'' then (RedBold, WARNING @ lit '' GROOMING RISK DETECTED'')
           else (GreenBold, CHECK @ lit '' No grooming detected'')],
      Inr [],
      severity_line (lit ''Risk Level:  '') (formatRisk rt (grooming_risk r)),
      Inr [(Plain, lit ''Confidence:  ''), (Cyan, percent rt (confidence r))],
      Inr [(Plain, lit ''Risk Score:  ''), (Cyan, percent rt (risk_score r))]]
     @ (case flags r of
          None \<Rightarrow> []
        | Some fs \<Rightarrow>
            if 0 < length fs
            then [Inr [], Inr [(Dim, lit ''Warning Flags:'')]]
                 @ map (\<lambda>flag. Inr [(Yellow, lit ''  '' @ BULLET @ lit '' '' @ flag)]) fs
            else [])
     @ [Inr [],
        Inr [(Dim, lit ''Rationale:'')],
        Inr [(Plain, rationale r)],
        Inr [],
        Inr [(Plain, lit ''Action: ''), (Yellow, recommended_action r)]]"

definition render_unsafe :: "runtime \<Rightarrow> unsafe_result \<Rightarrow> (exn + styled) list" where
  "render_unsafe rt r =
     [Inr [],
      Inr [if unsafe r then (RedBold, WARNING @ lit '' UNSAFE CONTENT DETECTED'')
           else (GreenBold, CHECK @ lit '' Content is safe'')],
      Inr [],
      severity_line (lit ''Severity:    '') (formatSeverity rt (severity r)),
      Inr [(Plain, lit ''Confidence:  ''), (Cyan, percent rt (confidence r))],
      Inr [(Plain, lit ''Risk Score:  ''), (Cyan, percent rt (risk_score r))]]
     @ (case categories r of
          None \<Rightarrow> []
        | Some cs \<Rightarrow>
            if 0 < length cs then [Inr [(Plain, lit ''Categories:  '' @ join (lit '', '') cs)]]
            else [])
     @ [Inr [],
        Inr [(Dim, lit ''Rationale:'')],
        Inr [(Plain, rationale r)],
        Inr [],
        Inr [(Plain, lit ''Action: ''), (Yellow, recommended_action r)]]"

definition render_analyze :: "runtime \<Rightarrow> analyze_result \<Rightarrow> (exn + styled) list" where
  "render_analyze rt r =
     [Inr [],
      Inr [if risk_level r = lit ''safe'' then (GreenBold, CHECK @ lit '' Content appears safe'')
           else (RedBold, WARNING @ lit '' SAFETY CONCERNS DETECTED'')],
      Inr [],
      severity_line (lit ''Risk Level:  '') (formatRisk rt (risk_level r)),
      Inr [(Plain, lit ''Risk Score:  ''), (Cyan, percent rt (risk_score r))],
      Inr [],
      Inr [(Dim, lit ''Summary:'')],
      Inr [(Plain, summary r)],
      Inr [],
      Inr [(Plain, lit ''Action: ''), (Yellow, recommended_action r)]]"

definition render_deleted :: "runtime \<Rightarrow> delete_result \<Rightarrow> (exn + styled) list" where
  "render_deleted rt r =
     [Inr [],
      Inr [(GreenBold, CHECK @ lit '' Account data deleted'')],
      Inr [(Plain, lit ''Deleted records: ''), (Cyan, number_to_string rt (deleted_count r))]]"

definition render_breach :: "runtime \<Rightarrow> breach \<Rightarrow> (exn + styled) list" where
  "render_breach rt b =
     [Inr [],
      Inr [(Bold, title b)],
      Inr [],
      Inr [(Plain, lit ''ID:            ''), (Cyan, breach_id b)],
      severity_line (lit ''Severity:      '') (formatSeverity rt (breach_severity b)),
      Inr [(Plain, lit ''Status:        ''), (Yellow, status b)],
      Inr [(Plain, lit ''Notification:  ''), (Yellow, notification_status b)],
      Inr [(Plain, lit ''Reported By:   '' @ reported_by b)],
      Inr [(Plain, lit ''Deadline:      ''), (Dim, notification_deadline b)],
      Inr [(Plain, lit ''Created:       ''), (Dim, created_at b)],
      Inr [(Plain, lit ''Updated:       ''), (Dim, updated_at b)],
      Inr [],
      Inr [(Dim, lit ''Description:'')],
      Inr [(Plain, description b)],
      Inr [],
      Inr [(Plain, lit ''Affected Users:   '' @ join (lit '', '') (affected_user_ids b))],
      Inr [(Plain, lit ''Data Categories:  '' @ join (lit '', '') (data_categories b))]]"

section \<open>The actions\<close>

definition login_action :: "runtime \<Rightarrow> jsstring \<Rightarrow> world \<Rightarrow> outcome" where
  "login_action rt apiKey w =
     \<lparr>events =
        [Log [(Green, CHECK @ lit '' API key saved successfully!'')],
         Log [(Dim, lit ''Your key is stored locally at: '' @ config_path rt)]],
      exit_status = 0,
      world_after = conf_set (lit ''apiKey'') apiKey w\<rparr>"

definition logout_action :: "world \<Rightarrow> outcome" where
  "logout_action w =
     \<lparr>events = [Log [(Green, CHECK @ lit '' Logged out successfully!'')]],
      exit_status = 0,
      world_after = conf_delete (lit ''apiKey'') w\<rparr>"

text \<open>\<open>apiKey.slice(0, 8) + '...' + apiKey.slice(-4)\<close>\<close>

definition masked :: "jsstring \<Rightarrow> jsstring" where
  "masked apiKey = slice_str 0 (Some 8) apiKey @ lit ''...'' @ slice_str (- 4) None apiKey"

definition logged_out_lines :: "event list" where
  "logged_out_lines =
     [Log [(Yellow, lit ''Not logged in'')], Log [(Dim, lit ''Run: tuteliq login <api-key>'')]]"

definition logged_in_lines :: "jsstring \<Rightarrow> event list" where
  "logged_in_lines apiKey =
     [Log [(Green, CHECK @ lit '' Logged in'')], Log [(Dim, lit ''API Key: '' @ masked apiKey)]]"

definition whoami_action :: "world \<Rightarrow> outcome" where
  "whoami_action w =
     \<lparr>events =
        (case conf_get (lit ''apiKey'') w of
           None \<Rightarrow> logged_out_lines
         | Some apiKey \<Rightarrow> if apiKey = [] then logged_out_lines else logged_in_lines apiKey),
      exit_status = 0,
      world_after = w\<rparr>"

definition detect_bullying_action :: "runtime \<Rightarrow> sdk \<Rightarrow> jsstring \<Rightarrow> world \<Rightarrow> outcome" where
  "detect_bullying_action rt s content w =
     attempt rt s (lit ''Analyzing...'')
       (\<lambda>key. respond (lit ''detectBullying'') (detectBullying s key content) (render_bullying rt) w)
       w"

definition detect_grooming_action ::
  "runtime \<Rightarrow> sdk \<Rightarrow> jsstring \<Rightarrow> jsstring option \<Rightarrow> world \<Rightarrow> outcome"
where
  "detect_grooming_action rt s messages age w =
     attempt rt s (lit ''Analyzing...'')
       (\<lambda>key.
          case JSON_parse messages of
            None \<Rightarrow> ([], Some JSONSyntax, w)
          | Some ms \<Rightarrow>
              respond (lit ''detectGrooming'') (detectGrooming s key ms age) (render_grooming rt) w)
       w"

definition detect_unsafe_action :: "runtime \<Rightarrow> sdk \<Rightarrow> jsstring \<Rightarrow> world \<Rightarrow> outcome" where
  "detect_unsafe_action rt s content w =
     attempt rt s (lit ''Analyzing...'')
       (\<lambda>key. respond (lit ''detectUnsafe'') (detectUnsafe s key content) (render_unsafe rt) w)
       w"

definition analyze_action :: "runtime \<Rightarrow> sdk \<Rightarrow> jsstring \<Rightarrow> world \<Rightarrow> outcome" where
  "analyze_action rt s content w =
     attempt rt s (lit ''Analyzing...'')
       (\<lambda>key. respond (lit ''analyze'') (analyze s key content) (render_analyze rt) w)
       w"

text \<open>
  \<open>account delete\<close> asks for \<open>--confirm\<close> before anything else: without it the warning is
  printed and the process exits with status 0.
\<close>

definition account_delete_action :: "runtime \<Rightarrow> sdk \<Rightarrow> bool \<Rightarrow> world \<Rightarrow> outcome" where
  "account_delete_action rt s confirm w =
     (if \<not> confirm then
        \<lparr>events =
           [Log [(RedBold,
                  WARNING @ lit '' WARNING: This will permanently delete ALL your account data.'')],
            Log [(Dim, lit ''Run with --confirm to proceed.'')]],
         exit_status = 0,
         world_after = w\<rparr>
      else
        attempt rt s (lit ''Deleting account data...'')
          (\<lambda>key. respond (lit ''deleteAccountData'') (deleteAccountData s key) (render_deleted rt) w)
          w)"

text \<open>
  \<open>account export\<close>: the result is serialised; with a truthy \<open>--output\<close> the text is written
  to that file and a confirmation is logged, otherwise the text is logged.
\<close>

definition account_export_action ::
  "runtime \<Rightarrow> sdk \<Rightarrow> jsstring option \<Rightarrow> world \<Rightarrow> outcome"
where
  "account_export_action rt s output w =
     attempt rt s (lit ''Exporting account data...'')
       (\<lambda>key.
          case exportAccountData s key of
            Inl m \<Rightarrow> ([Call (lit ''exportAccountData'')], Some (Thrown m), w)
          | Inr result \<Rightarrow>
              (let json = stringify rt result;
                   to_terminal =
                     ([Call (lit ''exportAccountData''), SpinnerStop, Log [(Plain, json)]], None, w)
               in case output of
                    None \<Rightarrow> to_terminal
                  | Some file \<Rightarrow>
                      if file = [] then to_terminal
                      else
                        (case write_error rt file of
                           Some m \<Rightarrow>
                             ([Call (lit ''exportAccountData''), SpinnerStop], Some (Thrown m), w)
                         | None \<Rightarrow>
                             ([Call (lit ''exportAccountData''), SpinnerStop, WriteFile file json,
                               Log [(GreenBold, CHECK @ lit '' Data exported to '' @ file)]],
                              None,
                              w\<lparr>files := (files w)(file \<mapsto> json)\<rparr>))))
       w"

definition breach_get_action :: "runtime \<Rightarrow> sdk \<Rightarrow> jsstring \<Rightarrow> world \<Rightarrow> outcome" where
  "breach_get_action rt s ident w =
     attempt rt s (lit ''Fetching breach...'')
       (\<lambda>key. respond (lit ''getBreach'') (getBreach s key ident) (render_breach rt) w)
       w"

text \<open>The spinner text and the SDK method of the remaining commands.\<close>

fun spinner_label :: "command \<Rightarrow> jsstring" where
  "spinner_label (Emotions _) = lit ''Analyzing...''"
| "spinner_label (Action_plan _ _ _ _) = lit ''Generating action plan...''"
| "spinner_label (Account_consent_record _ _) = lit ''Recording consent...''"
| "spinner_label (Account_consent_status _) = lit ''Fetching consent status...''"
| "spinner_label (Account_consent_withdraw _) = lit ''Withdrawing consent...''"
| "spinner_label (Account_audit_logs _ _) = lit ''Fetching audit logs...''"
| "spinner_label (Breach_log _ _ _ _ _ _) = lit ''Logging breach...''"
| "spinner_label (Breach_list _ _) = lit ''Fetching breaches...''"
| "spinner_label (Breach_update _ _ _ _) = lit ''Updating breach...''"
| "spinner_label (Voice_file _ _ _ _) = lit ''Analyzing audio...''"
| "spinner_label (Image_file _ _) = lit ''Analyzing image...''"
| "spinner_label Webhook_list = lit ''Fetching webhooks...''"
| "spinner_label (Webhook_create _ _ _) = lit ''Creating webhook...''"
| "spinner_label (Webhook_update _ _ _ _ _ _) = lit ''Updating webhook...''"
| "spinner_label (Webhook_delete _) = lit ''Deleting webhook...''"
| "spinner_label (Webhook_test _) = lit ''Testing webhook...''"
| "spinner_label (Webhook_regenerate_secret _) = lit ''Regenerating secret...''"
| "spinner_label (Pricing _) = lit ''Fetching pricing...''"
| "spinner_label Usage_monthly = lit ''Fetching usage...''"
| "spinner_label (Usage_history _) = lit ''Fetching history...''"
| "spinner_label (Usage_by_tool _) = lit ''Fetching usage...''"
| "spinner_label _ = []"

fun sdk_method :: "command \<Rightarrow> jsstring" where
  "sdk_method (Emotions _) = lit ''analyzeEmotions''"
| "sdk_method (Action_plan _ _ _ _) = lit ''getActionPlan''"
| "sdk_method (Account_consent_record _ _) = lit ''recordConsent''"
| "sdk_method (Account_consent_status _) = lit ''getConsentStatus''"
| "sdk_method (Account_consent_withdraw _) = lit ''withdrawConsent''"
| "sdk_method (Account_audit_logs _ _) = lit ''getAuditLogs''"
| "sdk_method (Breach_log _ _ _ _ _ _) = lit ''logBreach''"
| "sdk_method (Breach_list _ _) = lit ''listBreaches''"
| "sdk_method (Breach_update _ _ _ _) = lit ''updateBreachStatus''"
| "sdk_method (Voice_file _ _ _ _) = lit ''analyzeVoice''"
| "sdk_method (Image_file _ _) = lit ''analyzeImage''"
| "sdk_method Webhook_list = lit ''listWebhooks''"
| "sdk_method (Webhook_create _ _ _) = lit ''createWebhook''"
| "sdk_method (Webhook_update _ _ _ _ _ _) = lit ''updateWebhook''"
| "sdk_method (Webhook_delete _) = lit ''deleteWebhook''"
| "sdk_method (Webhook_test _) = lit ''testWebhook''"
| "sdk_method (Webhook_regenerate_secret _) = lit ''regenerateWebhookSecret''"
| "sdk_method (Pricing details) = (if details then lit ''getPricingDetails'' else lit ''getPricing'')"
| "sdk_method Usage_monthly = lit ''getUsageMonthly''"
| "sdk_method (Usage_history _) = lit ''getUsageHistory''"
| "sdk_method (Usage_by_tool _) = lit ''getUsageByTool''"
| "sdk_method _ = []"

text \<open>
  The remaining authenticated actions make one SDK call and format its result.
\<close>

definition other_action :: "runtime \<Rightarrow> sdk \<Rightarrow> command \<Rightarrow> world \<Rightarrow> outcome" where
  "other_action rt s cmd w =
     attempt rt s (spinner_label cmd)
       (\<lambda>key. respond (sdk_method cmd) (other s key cmd None) (\<lambda>ls. ls) w)
       w"

text \<open>\<open>voice\<close> and \<open>image\<close> read the file before the call; a file that cannot be read throws.\<close>

definition file_action :: "runtime \<Rightarrow> sdk \<Rightarrow> command \<Rightarrow> jsstring \<Rightarrow> world \<Rightarrow> outcome" where
  "file_action rt s cmd path w =
     attempt rt s (spinner_label cmd)
       (\<lambda>key.
          case files w path of
            None \<Rightarrow> ([ReadFile path], Some (Thrown (read_error rt path)), w)
          | Some content \<Rightarrow>
              (case respond (sdk_method cmd) (other s key cmd (Some content)) (\<lambda>ls. ls) w of
                 (evs, e, w') \<Rightarrow> (ReadFile path # evs, e, w')))
       w"

section \<open>The program\<close>

fun run :: "runtime \<Rightarrow> sdk \<Rightarrow> command \<Rightarrow> world \<Rightarrow> outcome" where
  "run rt s (Login apiKey) w = login_action rt apiKey w"
| "run rt s Logout w = logout_action w"
| "run rt s Whoami w = whoami_action w"
| "run rt s (Detect_bullying content) w = detect_bullying_action rt s content w"
| "run rt s (Detect_grooming messages age) w = detect_grooming_action rt s messages age w"
| "run rt s (Detect_unsafe content) w = detect_unsafe_action rt s content w"
| "run rt s (Analyze content) w = analyze_action rt s content w"
| "run rt s (Account_delete confirm) w = account_delete_action rt s confirm w"
| "run rt s (Account_export output) w = account_export_action rt s output w"
| "run rt s (Breach_get ident) w = breach_get_action rt s ident w"
| "run rt s (Voice_file path t l a) w = file_action rt s (Voice_file path t l a) path w"
| "run rt s (Image_file path t) w = file_action rt s (Image_file path t) path w"
| "run rt s cmd w = other_action rt s cmd w"

text \<open>The commands whose action calls \<open>getClient\<close>: all but \<open>login\<close>, \<open>logout\<close> and \<open>whoami\<close>.\<close>

fun authenticated :: "command \<Rightarrow> bool" where
  "authenticated (Login _) = False"
| "authenticated Logout = False"
| "authenticated Whoami = False"
| "authenticated _ = True"

text \<open>
  The rounding the specification names for percentages: to the nearest integer, a tie
  going up.
\<close>

definition round_half_up :: "rat \<Rightarrow> int" where
  "round_half_up x = \<lfloor>x + 1 / 2\<rfloor>"

section \<open>Examples\<close>

text \<open>
  A runtime, an SDK and two worlds for concrete runs. The example runtime leaves
  non-ASCII strings as they are and shows whole numbers only.
\<close>

definition example_runtime :: runtime where
  "example_runtime =
     \<lparr>upper = (\<lambda>s. s),
      number_text = (\<lambda>x. (if x < 0 then lit ''-'' else []) @ digits (nat \<lfloor>\<bar>x\<bar>\<rfloor>)),
      engine_message = (\<lambda>e. lit ''TypeError''),
      config_path = lit ''/home/user/.config/tuteliq-nodejs/config.json'',
      write_error = (\<lambda>p. None),
      read_error = (\<lambda>p. lit ''ENOENT'')\<rparr>"

definition example_bullying :: bullying_result where
  "example_bullying =
     \<lparr>risk_score = Finite (1 / 2), recommended_action = lit ''flag_for_moderator'',
      confidence = Finite (3 / 4), rationale = lit ''Degrading language'',
      severity = lit ''high'', is_bullying = True,
      bullying_type = Some [lit ''verbal'', lit ''exclusion'']\<rparr>"

definition example_grooming :: grooming_result where
  "example_grooming =
     \<lparr>risk_score = Finite 0, recommended_action = lit ''none'',
      confidence = Finite 1, rationale = lit ''Nothing found'',
      grooming_risk = lit ''safe'', flags = Some [lit ''secrecy'', lit ''gifts'']\<rparr>"

definition example_unsafe :: unsafe_result where
  "example_unsafe =
     \<lparr>risk_score = Finite (1 / 4), recommended_action = lit ''monitor'',
      confidence = Finite (1 / 2), rationale = lit ''Mild'',
      severity = lit ''low'', unsafe = False, categories = None\<rparr>"

definition example_analysis :: analyze_result where
  "example_analysis =
     \<lparr>risk_score = Finite 0, recommended_action = lit ''none'',
      risk_level = lit ''safe'', summary = lit ''Fine''\<rparr>"

definition example_breach :: breach where
  "example_breach =
     \<lparr>breach_id = lit ''b1'', title = lit ''Leak'', breach_severity = lit ''critical'',
      status = lit ''detected'', notification_status = lit ''pending'',
      reported_by = lit ''ops'', notification_deadline = lit ''2026-01-04'',
      created_at = lit ''2026-01-01'', updated_at = lit ''2026-01-02'',
      description = lit ''Exposed bucket'', affected_user_ids = [], data_categories = []\<rparr>"

definition example_export :: json where
  "example_export =
     JObject [(lit ''user'', JString (lit ''u1'')), (lit ''count'', JNumber (Finite 3)),
       (lit ''records'', JArray [JBool True, JNull])]"

definition example_sdk :: sdk where
  "example_sdk =
     \<lparr>construct = (\<lambda>key. None),
      detectBullying = (\<lambda>key content. Inr example_bullying),
      detectGrooming = (\<lambda>key ms age. Inr example_grooming),
      detectUnsafe = (\<lambda>key content. Inr example_unsafe),
      analyze = (\<lambda>key content. Inr example_analysis),
      deleteAccountData = (\<lambda>key. Inr \<lparr>deleted_count = Finite 3\<rparr>),
      exportAccountData = (\<lambda>key. Inr example_export),
      getBreach = (\<lambda>key ident. Inr example_breach),
      other = (\<lambda>key cmd content. Inr [Inr [(Plain, lit ''ok'')]])\<rparr>"

definition fresh_world :: world where
  "fresh_world = \<lparr>store = Map.empty, files = Map.empty\<rparr>"

definition example_world :: world where
  "example_world = \<lparr>store = [lit ''apiKey'' \<mapsto> lit ''sk_live_0123456789''], files = Map.empty\<rparr>"

section \<open>Basic facts\<close>

lemma lit_simps: "lit [] = []" "lit (c # cs) = of_nat (of_char c) # lit cs"
  by (simp_all add: lit_def)

lemma masked_take_drop: "masked k = take 8 k @ lit ''...'' @ drop (length k - 4) k"
  by (simp add: masked_def slice_str_def Let_def min_def max_def nat_diff_distrib)

lemma map_filter_append:
  "List.map_filter f (xs @ ys) = List.map_filter f xs @ List.map_filter f ys"
  by (simp add: List.map_filter_def)

lemma map_filter_Log:
  "List.map_filter (\<lambda>e. case e of Log t \<Rightarrow> Some t | _ \<Rightarrow> None) (map Log ls) = ls"
  by (induction ls) simp_all

lemma log_all_append_Inr:
  "log_all (map Inr ls @ rest) = (map Log ls @ fst (log_all rest), snd (log_all rest))"
  by (induction ls) simp_all

lemmas run_defs =
  attempt_def respond_def stdout_def stderr_def calls_def

section \<open>Credentials\<close>

text \<open>
  C1 does not hold as stated: \<open>account delete\<close> without \<open>--confirm\<close> is an authenticated
  command, and with no stored key it prints its warning and exits with status 0 without
  writing an authentication error.
\<close>

theorem account_delete_unconfirmed_exits_0:
  "authenticated (Account_delete False)
   \<and> conf_get (lit ''apiKey'') fresh_world = None
   \<and> exit_status (run example_runtime example_sdk (Account_delete False) fresh_world) = 0
   \<and> stderr (run example_runtime example_sdk (Account_delete False) fresh_world) = []"
  by (simp add: account_delete_action_def fresh_world_def conf_get_def run_defs)

text \<open>
  C1, amended: with no stored API key no authenticated command calls the SDK; every
  one of them except \<open>account delete\<close> without \<open>--confirm\<close> writes the authentication error
  to the error stream (and nothing else) and exits with status 1; \<open>account delete\<close>
  without \<open>--confirm\<close> exits with status 0 and an empty error stream.
\<close>

theorem missing_credential_stops_before_any_call:
  assumes "authenticated cmd" and "conf_get (lit ''apiKey'') w = None"
  shows "calls (run rt s cmd w) = []
    \<and> (if cmd = Account_delete False
       then exit_status (run rt s cmd w) = 0 \<and> stderr (run rt s cmd w) = []
       else exit_status (run rt s cmd w) = 1 \<and> stderr (run rt s cmd w) = [not_logged_in])"
  using assms
  by (cases cmd)
     (simp_all add: getClient_def run_defs
        detect_bullying_action_def detect_grooming_action_def detect_unsafe_action_def
        analyze_action_def account_delete_action_def account_export_action_def
        breach_get_action_def other_action_def file_action_def)

theorem missing_credential_stops_detect_bullying:
  "authenticated (Detect_bullying (lit ''hello''))
   \<and> conf_get (lit ''apiKey'') fresh_world = None
   \<and> calls (run example_runtime example_sdk (Detect_bullying (lit ''hello'')) fresh_world) = []
   \<and> exit_status (run example_runtime example_sdk (Detect_bullying (lit ''hello'')) fresh_world) = 1
   \<and> stderr (run example_runtime example_sdk (Detect_bullying (lit ''hello'')) fresh_world)
       = [not_logged_in]"
proof -
  have a: "authenticated (Detect_bullying (lit ''hello''))" by simp
  have b: "conf_get (lit ''apiKey'') fresh_world = None"
    by (simp add: fresh_world_def conf_get_def)
  show ?thesis
    using missing_credential_stops_before_any_call
      [OF a b, of example_runtime example_sdk] a b
    by simp
qed

text \<open>
  Whatever the stored key, \<open>account delete\<close> without \<open>--confirm\<close> prints its two warning
  lines, calls nothing, changes nothing and exits with status 0.
\<close>

lemma account_delete_unconfirmed_warns:
  "stdout (run rt s (Account_delete False) w)
     = [[(RedBold, WARNING @ lit '' WARNING: This will permanently delete ALL your account data.'')],
        [(Dim, lit ''Run with --confirm to proceed.'')]]
   \<and> stderr (run rt s (Account_delete False) w) = []
   \<and> calls (run rt s (Account_delete False) w) = []
   \<and> exit_status (run rt s (Account_delete False) w) = 0
   \<and> world_after (run rt s (Account_delete False) w) = w"
  by (simp add: account_delete_action_def run_defs)

text \<open>
  C5 does not hold as stated: after \<open>login\<close> with the empty string as key, \<open>whoami\<close> reports
  that nobody is logged in.
\<close>

theorem login_empty_key_then_whoami:
  "stdout (run example_runtime example_sdk Whoami
      (world_after (run example_runtime example_sdk (Login []) fresh_world)))
   = [[(Yellow, lit ''Not logged in'')], [(Dim, lit ''Run: tuteliq login <api-key>'')]]"
  by (simp add: login_action_def whoami_action_def conf_set_def conf_get_def
      logged_out_lines_def fresh_world_def run_defs)

text \<open>In any world, \<open>whoami\<close> after \<open>login\<close> with the empty string reports that nobody is logged in.\<close>

lemma login_empty_key_then_whoami_in_any_world:
  "stdout (run rt s Whoami (world_after (run rt s (Login []) w)))
   = [[(Yellow, lit ''Not logged in'')], [(Dim, lit ''Run: tuteliq login <api-key>'')]]"
  by (simp add: login_action_def whoami_action_def conf_set_def conf_get_def
      logged_out_lines_def run_defs)

text \<open>
  C5, amended: after \<open>login\<close> with any key that is not empty, \<open>whoami\<close> reports a logged-in
  state and shows the first 8 code units of the key, three dots and its last 4 code
  units (the whole key on either side when it is shorter).
\<close>

theorem login_then_whoami:
  assumes "k \<noteq> []"
  shows "stdout (run rt s Whoami (world_after (run rt s (Login k) w)))
    = [[(Green, CHECK @ lit '' Logged in'')],
       [(Dim, lit ''API Key: '' @ take 8 k @ lit ''...'' @ drop (length k - 4) k)]]"
  using assms
  by (simp add: login_action_def whoami_action_def conf_set_def conf_get_def
      logged_in_lines_def masked_take_drop run_defs)

theorem login_abc123_then_whoami:
  "lit ''abc123'' \<noteq> []
   \<and> stdout (run example_runtime example_sdk Whoami
        (world_after (run example_runtime example_sdk (Login (lit ''abc123'')) fresh_world)))
     = [[(Green, CHECK @ lit '' Logged in'')], [(Dim, lit ''API Key: abc123...c123'')]]"
proof -
  have a: "lit ''abc123'' \<noteq> []" by (simp add: lit_simps)
  show ?thesis
    using login_then_whoami [OF a, of example_runtime example_sdk fresh_world] a
    by (simp add: lit_simps)
qed

text \<open>
  C6: \<open>logout\<close> after \<open>login\<close> with any key leaves no stored credential, and \<open>whoami\<close> then
  reports that nobody is logged in; \<open>logout\<close> succeeds in every world, also one without
  a key, and a second \<open>logout\<close> (a second \<open>delete\<close>) changes nothing.
\<close>

theorem logout_removes_credential:
  "conf_get (lit ''apiKey'') (world_after (run rt s Logout (world_after (run rt s (Login k) w)))) = None
   \<and> stdout (run rt s Whoami (world_after (run rt s Logout (world_after (run rt s (Login k) w)))))
     = [[(Yellow, lit ''Not logged in'')], [(Dim, lit ''Run: tuteliq login <api-key>'')]]
   \<and> exit_status (run rt s Logout w) = 0
   \<and> stderr (run rt s Logout w) = []
   \<and> world_after (run rt s Logout (world_after (run rt s Logout w))) = world_after (run rt s Logout w)
   \<and> conf_get key (conf_delete key w) = None
   \<and> conf_delete key (conf_delete key w) = conf_delete key w"
  by (simp add: login_action_def logout_action_def whoami_action_def conf_set_def conf_get_def
      conf_delete_def logged_out_lines_def run_defs)



section \<open>Numbers and percentages\<close>

lemma powi_bitlen_bounds:
  assumes "0 < (p::int)"
  shows "(2::rat) powi (bitlen p - 1) \<le> of_int p" and "of_int p < (2::rat) powi bitlen p"
proof -
  from assms have b: "1 \<le> bitlen p" by (simp add: bitlen_alt_def)
  from bitlen_bounds[OF assms] have lo: "2 ^ nat (bitlen p - 1) \<le> p" and hi: "p < 2 ^ nat (bitlen p)"
    by simp_all
  have "(2::rat) powi (bitlen p - 1) = of_int (2 ^ nat (bitlen p - 1))"
    using b by (simp add: power_int_def)
  also have "\<dots> \<le> of_int p" using lo by (simp only: of_int_le_iff)
  finally show "(2::rat) powi (bitlen p - 1) \<le> of_int p" .
  have "(of_int p :: rat) < of_int (2 ^ nat (bitlen p))" using hi by (simp only: of_int_less_iff)
  also have "\<dots> = (2::rat) powi bitlen p" using b by (simp add: power_int_def)
  finally show "of_int p < (2::rat) powi bitlen p" .
qed

lemma binary_exponent_bounds:
  assumes "0 < x"
  shows "2 powi binary_exponent x \<le> x \<and> x < 2 powi (binary_exponent x + 1)"
proof -
  obtain p q where pq: "quotient_of x = (p, q)" by (cases "quotient_of x")
  then have q: "0 < q" and x: "x = of_int p / of_int q"
    by (simp_all add: quotient_of_denom_pos quotient_of_div)
  from assms x q have p: "0 < p" by (simp add: zero_less_divide_iff)
  let ?d = "bitlen p - bitlen q"
  have qr: "(0::rat) < of_int q" using q by simp
  have "x < 2 powi bitlen p / 2 powi (bitlen q - 1)"
    unfolding x using powi_bitlen_bounds[OF p] powi_bitlen_bounds[OF q] qr p
    by (intro frac_less) simp_all
  also have "\<dots> = 2 powi (?d + 1)"
    by (simp add: power_int_diff power_int_add)
  finally have hi: "x < 2 powi (?d + 1)" .
  have "2 powi (bitlen p - 1) / 2 powi bitlen q \<le> x"
    unfolding x using powi_bitlen_bounds[OF p] powi_bitlen_bounds[OF q] qr p
    by (intro frac_le) simp_all
  moreover have "2 powi (bitlen p - 1) / 2 powi bitlen q = (2::rat) powi (?d - 1)"
    by (simp add: power_int_diff power_int_add)
  ultimately have lo: "2 powi (?d - 1) \<le> x" by simp
  show ?thesis
  proof (cases "2 powi ?d \<le> x")
    case True
    then show ?thesis using hi by (simp add: binary_exponent_def pq)
  next
    case False
    then show ?thesis using lo by (simp add: binary_exponent_def pq)
  qed
qed

lemma binary_exponent_eq:
  assumes "2 powi e \<le> x" "x < 2 powi (e + 1)"
  shows "binary_exponent x = e"
proof -
  have "(0::rat) < 2 powi e" by simp
  then have pos: "0 < x" using assms(1) by linarith
  let ?b = "binary_exponent x"
  from binary_exponent_bounds[OF pos] have b: "2 powi ?b \<le> x" "x < 2 powi (?b + 1)" by simp_all
  have "\<not> e < ?b"
  proof
    assume "e < ?b"
    then have "(2::rat) powi (e + 1) \<le> 2 powi ?b" by (intro power_int_increasing) simp_all
    with b(1) assms(2) show False by linarith
  qed
  moreover have "\<not> ?b < e"
  proof
    assume "?b < e"
    then have "(2::rat) powi (?b + 1) \<le> 2 powi e" by (intro power_int_increasing) simp_all
    with b(2) assms(1) show False by linarith
  qed
  ultimately show ?thesis by simp
qed

lemma round_half_even_le:
  assumes "y \<le> of_int N"
  shows "round_half_even y \<le> N"
proof (cases "y = of_int N")
  case True
  then show ?thesis by (simp add: round_half_even_def)
next
  case False
  with assms have "y < of_int N" by simp
  then have "\<lfloor>y\<rfloor> < N" by (simp add: floor_less_iff)
  then show ?thesis by (simp add: round_half_even_def Let_def)
qed

lemma round_half_even_nonneg: "0 \<le> y \<Longrightarrow> 0 \<le> round_half_even y"
  by (simp add: round_half_even_def Let_def)

lemma round_half_even_error: "\<bar>of_int (round_half_even y) - y\<bar> \<le> 1 / 2"
proof -
  have "of_int \<lfloor>y\<rfloor> \<le> y" "y < of_int \<lfloor>y\<rfloor> + 1" by linarith+
  then show ?thesis by (auto simp: round_half_even_def Let_def)
qed

text \<open>
  A product between 0 and 100 rounds to a double between 0 and 100, at most half a unit
  in the last place (\<open>1 / 2 ^ 47\<close> below 128) away from it.
\<close>

lemma round_double_close:
  assumes "0 \<le> a" "a \<le> 100"
  shows "\<exists>y. round_double a = Finite y \<and> 0 \<le> y \<and> y \<le> 100 \<and> \<bar>y - a\<bar> \<le> 1 / 2 ^ 47"
proof (cases "a = 0")
  case True
  then show ?thesis by (simp add: round_double_def)
next
  case False
  with assms have pos: "0 < a" by simp
  let ?e = "binary_exponent a"
  let ?u = "max (?e - 52) (- 1074)"
  let ?m = "round_half_even (a / 2 powi ?u)"
  let ?y = "of_int ?m * (2::rat) powi ?u"
  have "(2::rat) powi ?e \<le> a" using binary_exponent_bounds[OF pos] by simp
  also have "a < 2 powi 7" using assms by simp
  finally have lt: "(2::rat) powi ?e < 2 powi 7" .
  have "?e < 7"
  proof (rule ccontr)
    assume "\<not> ?e < 7"
    then have "(2::rat) powi 7 \<le> 2 powi ?e" by (intro power_int_increasing) simp_all
    with lt show False by simp
  qed
  then have u: "?u \<le> - 46" by simp
  have p: "(0::rat) < 2 powi ?u" by simp
  define N :: int where "N = 100 * 2 ^ nat (- ?u)"
  have N: "(of_int N :: rat) = 100 / 2 powi ?u"
    using u by (simp add: N_def power_int_def field_simps)
  have "a / 2 powi ?u \<le> of_int N" unfolding N using assms p by (simp add: divide_right_mono)
  then have "?m \<le> N" by (rule round_half_even_le)
  then have "(of_int ?m :: rat) \<le> of_int N" by (simp only: of_int_le_iff)
  then have "?y \<le> of_int N * 2 powi ?u" using p by (simp add: mult_right_mono)
  also have "\<dots> = 100" unfolding N by simp
  finally have hi: "?y \<le> 100" .
  have "0 \<le> a / 2 powi ?u" using assms by simp
  then have "0 \<le> ?m" by (rule round_half_even_nonneg)
  then have lo: "0 \<le> ?y" by simp
  have "?y - a = (of_int ?m - a / 2 powi ?u) * 2 powi ?u"
    by (simp add: left_diff_distrib)
  then have "\<bar>?y - a\<bar> = \<bar>of_int ?m - a / 2 powi ?u\<bar> * 2 powi ?u"
    by (simp add: abs_mult)
  also have "\<dots> \<le> 1 / 2 * 2 powi ?u"
    using round_half_even_error[of "a / 2 powi ?u"] p by (intro mult_right_mono) simp_all
  also have "(2::rat) powi ?u \<le> 2 powi (- 46)"
    using u by (intro power_int_increasing) simp_all
  then have "1 / 2 * (2::rat) powi ?u \<le> 1 / 2 * 2 powi (- 46)" by simp
  also have "1 / 2 * (2::rat) powi (- 46) = 1 / 2 ^ 47"
    by (simp add: power_int_def power_one_over)
  finally have cl: "\<bar>?y - a\<bar> \<le> 1 / 2 ^ 47" .
  have "?y < 2 powi 1024" using hi by simp
  then show ?thesis using False pos lo hi cl
    by (simp add: round_double_def Let_def abs_of_pos)
qed

text \<open>
  \<open>toFixed(0)\<close> picks the closer of the two neighbouring integers and the larger one of
  two equally close: that is rounding half up.
\<close>

lemma toFixed_0:
  assumes "0 \<le> y" "y < 10 ^ 21"
  shows "toFixed rt 0 (Finite y) = digits (nat (round_half_up y))"
proof -
  let ?lo = "\<lfloor>y\<rfloor>"
  have b: "of_int ?lo \<le> y" "y < of_int ?lo + 1" by linarith+
  have "(if y - of_int ?lo < of_int (?lo + 1) - y then ?lo else ?lo + 1) = round_half_up y"
  proof (cases "y - of_int ?lo < of_int (?lo + 1) - y")
    case True
    then have t: "y - of_int ?lo < of_int ?lo + 1 - y" by simp
    have "of_int ?lo \<le> y + 1 / 2" using b by linarith
    moreover have "y + 1 / 2 < of_int ?lo + 1" using t by linarith
    ultimately have "\<lfloor>y + 1 / 2\<rfloor> = ?lo" by (rule floor_unique)
    with True show ?thesis by (simp add: round_half_up_def)
  next
    case False
    then have t: "\<not> y - of_int ?lo < of_int ?lo + 1 - y" by simp
    have "of_int (?lo + 1) \<le> y + 1 / 2" using t by simp
    moreover have "y + 1 / 2 < of_int (?lo + 1) + 1" using b by simp
    ultimately have "\<lfloor>y + 1 / 2\<rfloor> = ?lo + 1" by (rule floor_unique)
    with False show ?thesis by (simp add: round_half_up_def)
  qed
  then show ?thesis using assms by (simp add: toFixed_def Let_def)
qed

lemma floor_divide_numeral_rat:
  "\<lfloor>numeral a / numeral b :: rat\<rfloor> = numeral a div numeral b"
  using floor_divide_of_int_eq[of "numeral a" "numeral b", where ?'a = rat] by simp

lemma binary_exponent_50: "binary_exponent 50 = 5"
  by (rule binary_exponent_eq) simp_all

lemma round_double_50: "round_double 50 = Finite 50"
  by (simp add: round_double_def binary_exponent_50 round_half_even_def Let_def)

lemma round_half_up_close:
  assumes "\<bar>x - a\<bar> \<le> 1 / 2 ^ 47"
  shows "\<bar>round_half_up x - round_half_up a\<bar> \<le> 1"
proof -
  have "(1::rat) / 2 ^ 47 < 1" by simp
  with assms have "\<bar>x - a\<bar> < 1" by linarith
  then show ?thesis unfolding round_half_up_def by linarith
qed

text \<open>
  The double nearest to 0.015 is \<open>1080863910568919 / 2 ^ 56\<close>, a little below 0.015. Its
  exact product with 100 is below 1.5; the binary64 product is 1.5.
\<close>

lemma product_015:
  "(1080863910568919 / 72057594037927936 * 100 :: rat) = 27021597764222975 / 18014398509481984"
  by simp

lemma binary_exponent_product_015: "binary_exponent (27021597764222975 / 18014398509481984) = 0"
  by (rule binary_exponent_eq) simp_all

lemma round_double_product_015:
  "round_double (27021597764222975 / 18014398509481984) = Finite (3 / 2)"
  by (simp add: round_double_def binary_exponent_product_015 round_half_even_def Let_def
      floor_divide_numeral_rat)

lemma binary_exponent_015: "binary_exponent (1080863910568919 / 72057594037927936) = - 7"
  by (rule binary_exponent_eq) simp_all

lemma is_double_015: "is_double (1080863910568919 / 72057594037927936)"
  by (simp add: is_double_def round_double_def binary_exponent_015 round_half_even_def Let_def
      floor_divide_numeral_rat)

text \<open>
  C2 does not hold as stated: for the double nearest to 0.015, a value between 0 and 1,
  \<open>r * 100\<close> rounded to the nearest integer is 1, and the rendered percentage is \<open>2%\<close>.
\<close>

theorem percent_of_a_double_below_a_tie:
  "is_double (1080863910568919 / 72057594037927936)
   \<and> (0::rat) \<le> 1080863910568919 / 72057594037927936
   \<and> (1080863910568919 / 72057594037927936 :: rat) \<le> 1
   \<and> (1080863910568919 / 72057594037927936 * 100 :: rat) < 3 / 2
   \<and> round_half_up (1080863910568919 / 72057594037927936 * 100) = 1
   \<and> multiply (Finite (1080863910568919 / 72057594037927936)) (Finite 100) = Finite (3 / 2)
   \<and> percent example_runtime (Finite (1080863910568919 / 72057594037927936)) = lit ''2%''"
proof -
  have m: "multiply (Finite (1080863910568919 / 72057594037927936)) (Finite 100) = Finite (3 / 2)"
    by (simp only: multiply.simps product_015 round_double_product_015)
  have t: "toFixed example_runtime 0 (Finite (3 / 2)) = digits (nat (round_half_up (3 / 2)))"
    by (rule toFixed_0) simp_all
  have u: "round_half_up (3 / 2) = 2" by (simp add: round_half_up_def)
  have d: "digits 2 = lit ''2''" by (simp add: digits.simps lit_simps)
  have p: "percent example_runtime (Finite (1080863910568919 / 72057594037927936)) = lit ''2%''"
    unfolding percent_def m t u by (simp add: d lit_simps)
  have r: "round_half_up (1080863910568919 / 72057594037927936 * 100) = 1"
    unfolding product_015 by (simp add: round_half_up_def floor_divide_numeral_rat)
  show ?thesis using is_double_015 m p r by simp
qed

text \<open>
  C2, amended: for every confidence or risk value \<open>r\<close> between 0 and 1, the product that
  the program computes is the binary64 product \<open>x\<close> of \<open>r\<close> and 100, a finite number between
  0 and 100 that is at most \<open>1 / 2 ^ 47\<close> away from \<open>r * 100\<close>; the rendered percentage is the
  decimal numeral of \<open>x\<close> rounded to the nearest integer, a tie going up, followed by the
  percent sign. It is the rounding of \<open>r * 100\<close> itself or differs from it by 1.
\<close>

theorem percent_rounds_half_up:
  assumes "0 \<le> r" and "r \<le> 1"
  shows "\<exists>x. multiply (Finite r) (Finite 100) = Finite x \<and> 0 \<le> x \<and> x \<le> 100
    \<and> \<bar>x - r * 100\<bar> \<le> 1 / 2 ^ 47
    \<and> \<bar>of_int (round_half_up x) - x\<bar> \<le> 1 / 2
    \<and> \<bar>round_half_up x - round_half_up (r * 100)\<bar> \<le> 1
    \<and> percent rt (Finite r) = digits (nat (round_half_up x)) @ lit ''%''"
proof -
  have "0 \<le> r * 100" "r * 100 \<le> 100" using assms by simp_all
  from round_double_close[OF this] obtain x where
    x: "round_double (r * 100) = Finite x" "0 \<le> x" "x \<le> 100" "\<bar>x - r * 100\<bar> \<le> 1 / 2 ^ 47"
    by blast
  have "x < 10 ^ 21" using x(3) by simp
  then have "toFixed rt 0 (Finite x) = digits (nat (round_half_up x))"
    using x(2) by (intro toFixed_0)
  moreover have "\<bar>of_int (round_half_up x) - x\<bar> \<le> 1 / 2"
    unfolding round_half_up_def by linarith
  moreover have "\<bar>round_half_up x - round_half_up (r * 100)\<bar> \<le> 1"
    using x(4) by (rule round_half_up_close)
  ultimately show ?thesis using x by (simp add: percent_def)
qed

theorem percent_of_one_half:
  "(0::rat) \<le> 1 / 2 \<and> (1 / 2 :: rat) \<le> 1
   \<and> percent example_runtime (Finite (1 / 2)) = lit ''50%''"
proof -
  have m: "multiply (Finite (1 / 2)) (Finite 100) = Finite 50"
    by (simp add: round_double_50)
  have d: "digits 50 = lit ''50''" by (simp add: digits.simps lit_simps)
  from percent_rounds_half_up [of "1 / 2" example_runtime] obtain x where
    "multiply (Finite (1 / 2)) (Finite 100) = Finite x"
    "percent example_runtime (Finite (1 / 2)) = digits (nat (round_half_up x)) @ lit ''%''"
    by auto
  with m show ?thesis
    by (simp add: round_half_up_def floor_divide_numeral_rat d lit_simps)
qed

section \<open>Severity and risk\<close>

text \<open>The four severities and the six risk levels have their fixed colour and label.\<close>

lemma formatSeverity_known:
  "formatSeverity rt (lit ''low'') = Inr (Yellow, lit ''LOW'')
   \<and> formatSeverity rt (lit ''medium'') = Inr (Orange, lit ''MEDIUM'')
   \<and> formatSeverity rt (lit ''high'') = Inr (Red, lit ''HIGH'')
   \<and> formatSeverity rt (lit ''critical'') = Inr (BgRedWhite, lit ''CRITICAL'')"
  by (simp add: formatSeverity_def get_property_def severity_colors_def or_else_def
      toUpperCase_def ascii_def upper_ascii_def lit_simps)

lemma formatRisk_known:
  "formatRisk rt (lit ''none'') = Inr (Green, lit ''NONE'')
   \<and> formatRisk rt (lit ''safe'') = Inr (Green, lit ''SAFE'')
   \<and> formatRisk rt (lit ''low'') = Inr (Yellow, lit ''LOW'')
   \<and> formatRisk rt (lit ''medium'') = Inr (Orange, lit ''MEDIUM'')
   \<and> formatRisk rt (lit ''high'') = Inr (Red, lit ''HIGH'')
   \<and> formatRisk rt (lit ''critical'') = Inr (BgRedWhite, lit ''CRITICAL'')"
  by (simp add: formatRisk_def get_property_def risk_colors_def or_else_def
      toUpperCase_def ascii_def upper_ascii_def lit_simps)

text \<open>
  A string that is neither in the table nor the name of a property of \<open>Object.prototype\<close>
  gets the neutral white style and its upper-cased self as label.
\<close>

lemma formatSeverity_fallback:
  assumes "name \<notin> set (map fst severity_colors)"
    and "name \<notin> set ([lit ''constructor'', lit ''__proto__''] @ object_prototype_methods)"
  shows "formatSeverity rt name = Inr (White, toUpperCase rt name)"
proof -
  have "map_of severity_colors name = None"
    using assms(1) by (simp add: map_of_eq_None_iff)
  then show ?thesis
    using assms(2) by (simp add: formatSeverity_def get_property_def or_else_def)
qed

lemma formatSeverity_fallback_unknown:
  "lit ''unknown'' \<notin> set (map fst severity_colors)
   \<and> lit ''unknown'' \<notin> set ([lit ''constructor'', lit ''__proto__''] @ object_prototype_methods)
   \<and> formatSeverity example_runtime (lit ''unknown'') = Inr (White, lit ''UNKNOWN'')"
proof -
  have a: "lit ''unknown'' \<notin> set (map fst severity_colors)"
    by (simp add: severity_colors_def lit_simps)
  have b: "lit ''unknown''
      \<notin> set ([lit ''constructor'', lit ''__proto__''] @ object_prototype_methods)"
    by (simp add: object_prototype_methods_def lit_simps)
  show ?thesis
    using formatSeverity_fallback [OF a b, of example_runtime] a b
    by (simp add: toUpperCase_def ascii_def upper_ascii_def lit_simps)
qed

lemma formatRisk_fallback:
  assumes "risk \<notin> set (map fst risk_colors)"
    and "risk \<notin> set ([lit ''constructor'', lit ''__proto__''] @ object_prototype_methods)"
  shows "formatRisk rt risk = Inr (White, toUpperCase rt risk)"
proof -
  have "map_of risk_colors risk = None"
    using assms(1) by (simp add: map_of_eq_None_iff)
  then show ?thesis
    using assms(2) by (simp add: formatRisk_def get_property_def or_else_def)
qed

lemma formatRisk_fallback_unknown:
  "lit ''unknown'' \<notin> set (map fst risk_colors)
   \<and> lit ''unknown'' \<notin> set ([lit ''constructor'', lit ''__proto__''] @ object_prototype_methods)
   \<and> formatRisk example_runtime (lit ''unknown'') = Inr (White, lit ''UNKNOWN'')"
proof -
  have a: "lit ''unknown'' \<notin> set (map fst risk_colors)"
    by (simp add: risk_colors_def lit_simps)
  have b: "lit ''unknown''
      \<notin> set ([lit ''constructor'', lit ''__proto__''] @ object_prototype_methods)"
    by (simp add: object_prototype_methods_def lit_simps)
  show ?thesis
    using formatRisk_fallback [OF a b, of example_runtime] a b
    by (simp add: toUpperCase_def ascii_def upper_ascii_def lit_simps)
qed

text \<open>
  C3 at the names of the properties that every object literal inherits: \<open>valueOf\<close> is
  found in \<open>Object.prototype\<close>, so the fallback is not taken, and the call throws;
  \<open>__proto__\<close> yields an object that cannot be called; \<open>constructor\<close> yields a function
  that returns the label without any style. The same holds for the risk formatter.
\<close>

theorem formatSeverity_inherited_names:
  "formatSeverity rt (lit ''valueOf'') = Inl UndefinedThis
   \<and> formatSeverity rt (lit ''__proto__'') = Inl NotAFunction
   \<and> formatSeverity rt (lit ''constructor'') = Inr (Plain, lit ''CONSTRUCTOR'')
   \<and> formatRisk rt (lit ''valueOf'') = Inl UndefinedThis
   \<and> formatRisk rt (lit ''__proto__'') = Inl NotAFunction
   \<and> formatRisk rt (lit ''constructor'') = Inr (Plain, lit ''CONSTRUCTOR'')"
  by (simp add: formatSeverity_def formatRisk_def get_property_def severity_colors_def
      risk_colors_def or_else_def object_prototype_methods_def toUpperCase_def ascii_def
      upper_ascii_def lit_simps)

text \<open>
  With such a severity in the result, \<open>detect-bullying\<close> logs the banner, then reports the
  error and exits with status 1.
\<close>

lemma detect_bullying_inherited_severity:
  assumes "getClient s w = Client key" and "detectBullying s key c = Inr b"
    and "severity b = lit ''valueOf''"
  shows "exit_status (run rt s (Detect_bullying c) w) = 1
    \<and> stderr (run rt s (Detect_bullying c) w) = [error_line rt UndefinedThis]
    \<and> length (stdout (run rt s (Detect_bullying c) w)) = 3"
proof -
  have "formatSeverity rt (severity b) = Inl UndefinedThis"
    using assms(3)
    by (simp add: formatSeverity_def get_property_def severity_colors_def or_else_def
        object_prototype_methods_def lit_simps)
  then show ?thesis
    using assms(1,2)
    by (simp add: detect_bullying_action_def run_defs render_bullying_def severity_line_def)
qed

section \<open>Grooming detection\<close>

lemma getClient_example:
  "getClient example_sdk example_world = Client (lit ''sk_live_0123456789'')"
  by (simp add: getClient_def example_sdk_def example_world_def conf_get_def lit_simps)

text \<open>
  C4: when the text given to \<open>detect-grooming\<close> with \<open>-m\<close> does not parse as JSON, the process
  exits with status 1 and no SDK method is called; the error stream holds one line, the
  report of the syntax error when a client was obtained.
\<close>

theorem malformed_messages_exit_1_without_call:
  assumes "JSON_parse m = None"
  shows "exit_status (run rt s (Detect_grooming m age) w) = 1
    \<and> calls (run rt s (Detect_grooming m age) w) = []
    \<and> stderr (run rt s (Detect_grooming m age) w)
      = [case getClient s w of
           Exited \<Rightarrow> not_logged_in
         | Failed e \<Rightarrow> error_line rt e
         | Client key \<Rightarrow> error_line rt JSONSyntax]"
  using assms
  by (simp add: detect_grooming_action_def run_defs split: client.splits)

theorem unquoted_messages_exit_1_without_call:
  "JSON_parse (lit ''[{role:adult}]'') = None
   \<and> exit_status
       (run example_runtime example_sdk (Detect_grooming (lit ''[{role:adult}]'') None) example_world)
     = 1
   \<and> calls
       (run example_runtime example_sdk (Detect_grooming (lit ''[{role:adult}]'') None) example_world)
     = []
   \<and> stderr
       (run example_runtime example_sdk (Detect_grooming (lit ''[{role:adult}]'') None) example_world)
     = [error_line example_runtime JSONSyntax]"
proof -
  have a: "JSON_parse (lit ''[{role:adult}]'') = None" by code_simp
  show ?thesis
    using malformed_messages_exit_1_without_call
      [OF a, of example_runtime example_sdk None example_world] a
    by (simp add: getClient_example)
qed

text \<open>
  C10: when the call of \<open>detect-grooming\<close> succeeds, the second line logged is the banner,
  and it is the negative one exactly when \<open>grooming_risk\<close> is the string \<open>none\<close>; every
  other value gets the positive banner, also \<open>safe\<close>, which the risk formatter shows in
  green.
\<close>

theorem grooming_banner_compares_with_none:
  assumes "getClient s w = Client key" and "JSON_parse m = Some ms"
    and "detectGrooming s key ms age = Inr r"
  shows "take 2 (stdout (run rt s (Detect_grooming m age) w))
      = [[], [if grooming_risk r = lit ''none''
              then (GreenBold, CHECK @ lit '' No grooming detected'')
              else (RedBold, WARNING @ lit '' GROOMING RISK DETECTED'')]]
    \<and> (GreenBold, CHECK @ lit '' No grooming detected'')
        \<noteq> (RedBold, WARNING @ lit '' GROOMING RISK DETECTED'')
    \<and> lit ''safe'' \<noteq> lit ''none''
    \<and> formatRisk rt (lit ''safe'') = Inr (Green, lit ''SAFE'')"
proof -
  have "take 2 (stdout (run rt s (Detect_grooming m age) w))
      = [[], [if grooming_risk r = lit ''none''
              then (GreenBold, CHECK @ lit '' No grooming detected'')
              else (RedBold, WARNING @ lit '' GROOMING RISK DETECTED'')]]"
    using assms
    by (simp add: detect_grooming_action_def run_defs render_grooming_def split: option.splits)
  moreover have "lit ''safe'' \<noteq> lit ''none''" by (simp add: lit_simps)
  ultimately show ?thesis using formatRisk_known [of rt] by simp
qed

theorem grooming_banner_for_safe:
  "getClient example_sdk example_world = Client (lit ''sk_live_0123456789'')
   \<and> JSON_parse (lit ''[]'') = Some (JArray [])
   \<and> detectGrooming example_sdk (lit ''sk_live_0123456789'') (JArray []) None = Inr example_grooming
   \<and> grooming_risk example_grooming = lit ''safe''
   \<and> take 2 (stdout (run example_runtime example_sdk (Detect_grooming (lit ''[]'') None) example_world))
      = [[], [(RedBold, WARNING @ lit '' GROOMING RISK DETECTED'')]]"
proof -
  have b: "JSON_parse (lit ''[]'') = Some (JArray [])" by code_simp
  have c: "detectGrooming example_sdk (lit ''sk_live_0123456789'') (JArray []) None
      = Inr example_grooming"
    by (simp add: example_sdk_def)
  have d: "grooming_risk example_grooming = lit ''safe''" by (simp add: example_grooming_def)
  show ?thesis
    using grooming_banner_compares_with_none [OF getClient_example b c, of example_runtime]
      getClient_example b c d
    by simp
qed

section \<open>Lists in results\<close>

text \<open>
  C8 does not hold as stated: \<open>breach get\<close> prints its two list fields whatever they hold;
  for a breach with no affected users and no data categories the two lines consist of
  the label alone.
\<close>

theorem breach_get_renders_empty_lists:
  "affected_user_ids example_breach = []
   \<and> data_categories example_breach = []
   \<and> drop 15 (stdout (run example_runtime example_sdk (Breach_get (lit ''b1'')) example_world))
      = [[(Plain, lit ''Affected Users:   '')], [(Plain, lit ''Data Categories:  '')]]"
proof -
  have b: "getBreach example_sdk (lit ''sk_live_0123456789'') (lit ''b1'') = Inr example_breach"
    by (simp add: example_sdk_def)
  have s: "formatSeverity example_runtime (breach_severity example_breach)
      = Inr (BgRedWhite, lit ''CRITICAL'')"
    using formatSeverity_known [of example_runtime] by (simp add: example_breach_def)
  have "drop 15 (stdout (run example_runtime example_sdk (Breach_get (lit ''b1'')) example_world))
      = [[(Plain, lit ''Affected Users:   '' @ join (lit '', '') (affected_user_ids example_breach))],
         [(Plain, lit ''Data Categories:  '' @ join (lit '', '') (data_categories example_breach))]]"
    by (simp add: breach_get_action_def run_defs getClient_example b s render_breach_def
        severity_line_def)
  then show ?thesis by (simp add: example_breach_def)
qed

lemma bullying_types_line:
  assumes "getClient s w = Client key" and "detectBullying s key c1 = Inr b" and "formatSeverity rt (severity b) = Inr sb"
  shows "stdout (run rt s (Detect_bullying c1) w) =
      [[],
       [if is_bullying b then (RedBold, WARNING @ lit '' BULLYING DETECTED'')
        else (GreenBold, CHECK @ lit '' No bullying detected'')],
       [],
       [(Plain, lit ''Severity:    ''), sb],
       [(Plain, lit ''Confidence:  ''), (Cyan, percent rt (confidence b))],
       [(Plain, lit ''Risk Score:  ''), (Cyan, percent rt (risk_score b))]]
      @ (case bullying_type b of
           None \<Rightarrow> []
         | Some ts \<Rightarrow>
             if ts = [] then [] else [[(Plain, lit ''Types:       '' @ join (lit '', '') ts)]])
      @ [[], [(Dim, lit ''Rationale:'')], [(Plain, rationale b)], [],
         [(Plain, lit ''Action: ''), (Yellow, recommended_action b)]]"
  using assms
  by (simp add: detect_bullying_action_def run_defs render_bullying_def severity_line_def
      split: option.splits)

lemma unsafe_categories_line:
  assumes "getClient s w = Client key" and "detectUnsafe s key c2 = Inr u" and "formatSeverity rt (severity u) = Inr su"
  shows "stdout (run rt s (Detect_unsafe c2) w) =
      [[],
       [if unsafe u then (RedBold, WARNING @ lit '' UNSAFE CONTENT DETECTED'')
        else (GreenBold, CHECK @ lit '' Content is safe'')],
       [],
       [(Plain, lit ''Severity:    ''), su],
       [(Plain, lit ''Confidence:  ''), (Cyan, percent rt (confidence u))],
       [(Plain, lit ''Risk Score:  ''), (Cyan, percent rt (risk_score u))]]
      @ (case categories u of
           None \<Rightarrow> []
         | Some cs \<Rightarrow>
             if cs = [] then [] else [[(Plain, lit ''Categories:  '' @ join (lit '', '') cs)]])
      @ [[], [(Dim, lit ''Rationale:'')], [(Plain, rationale u)], [],
         [(Plain, lit ''Action: ''), (Yellow, recommended_action u)]]"
  using assms
  by (simp add: detect_unsafe_action_def run_defs render_unsafe_def severity_line_def
      split: option.splits)

lemma grooming_flags_lines:
  assumes "getClient s w = Client key" and "JSON_parse m = Some ms" and "detectGrooming s key ms age = Inr g" and "formatRisk rt (grooming_risk g) = Inr sg"
  shows "stdout (run rt s (Detect_grooming m age) w) =
      [[],
       [if grooming_risk g = lit ''none''
        then (GreenBold, CHECK @ lit '' No grooming detected'')
        else (RedBold, WARNING @ lit '' GROOMING RISK DETECTED'')],
       [],
       [(Plain, lit ''Risk Level:  ''), sg],
       [(Plain, lit ''Confidence:  ''), (Cyan, percent rt (confidence g))],
       [(Plain, lit ''Risk Score:  ''), (Cyan, percent rt (risk_score g))]]
      @ (case flags g of
           None \<Rightarrow> []
         | Some fs \<Rightarrow>
             if fs = [] then []
             else [[], [(Dim, lit ''Warning Flags:'')]]
                  @ map (\<lambda>flag. [(Yellow, lit ''  '' @ BULLET @ lit '' '' @ flag)]) fs)
      @ [[], [(Dim, lit ''Rationale:'')], [(Plain, rationale g)], [],
         [(Plain, lit ''Action: ''), (Yellow, recommended_action g)]]"
proof -
  have bullets: "map (\<lambda>flag. Inr [(Yellow, lit ''  '' @ BULLET @ lit '' '' @ flag)]) fs
      = map Inr (map (\<lambda>flag. [(Yellow, lit ''  '' @ BULLET @ lit '' '' @ flag)]) fs)"
    for fs :: "jsstring list"
    by simp
  show ?thesis
    using assms
    by (simp add: detect_grooming_action_def run_defs render_grooming_def severity_line_def
        bullets log_all_append_Inr map_filter_Log map_filter_append del: map_map
        split: option.splits)
qed

lemma breach_get_list_lines:
  assumes "getClient s w = Client key" and "getBreach s key i = Inr br" and "formatSeverity rt (breach_severity br) = Inr sbr"
  shows "drop 15 (stdout (run rt s (Breach_get i) w)) =
      [[(Plain, lit ''Affected Users:   '' @ join (lit '', '') (affected_user_ids br))],
       [(Plain, lit ''Data Categories:  '' @ join (lit '', '') (data_categories br))]]"
  using assms
  by (simp add: breach_get_action_def run_defs render_breach_def severity_line_def)

text \<open>
  C8, amended, for results that are formatted to the end. The bullying types and the
  categories of unsafe content are joined with a comma and a space on one labelled
  line when the list is not empty, and the line is left out when the list is empty
  or absent. The grooming flags are not joined: when there are any, an empty line, a
  heading and one bulleted line per flag are logged, and nothing when the list is empty
  or absent. \<open>breach get\<close> always logs the affected users and the data categories, joined
  with a comma and a space, also when the lists are empty.
\<close>

theorem list_fields_rendering:
  assumes "getClient s w = Client key"
    and "detectBullying s key c1 = Inr b" and "formatSeverity rt (severity b) = Inr sb"
    and "detectUnsafe s key c2 = Inr u" and "formatSeverity rt (severity u) = Inr su"
    and "JSON_parse m = Some ms" and "detectGrooming s key ms age = Inr g"
    and "formatRisk rt (grooming_risk g) = Inr sg"
    and "getBreach s key i = Inr br" and "formatSeverity rt (breach_severity br) = Inr sbr"
  shows "stdout (run rt s (Detect_bullying c1) w) =
      [[],
       [if is_bullying b then (RedBold, WARNING @ lit '' BULLYING DETECTED'')
        else (GreenBold, CHECK @ lit '' No bullying detected'')],
       [],
       [(Plain, lit ''Severity:    ''), sb],
       [(Plain, lit ''Confidence:  ''), (Cyan, percent rt (confidence b))],
       [(Plain, lit ''Risk Score:  ''), (Cyan, percent rt (risk_score b))]]
      @ (case bullying_type b of
           None \<Rightarrow> []
         | Some ts \<Rightarrow>
             if ts = [] then [] else [[(Plain, lit ''Types:       '' @ join (lit '', '') ts)]])
      @ [[], [(Dim, lit ''Rationale:'')], [(Plain, rationale b)], [],
         [(Plain, lit ''Action: ''), (Yellow, recommended_action b)]]
    \<and> stdout (run rt s (Detect_unsafe c2) w) =
      [[],
       [if unsafe u then (RedBold, WARNING @ lit '' UNSAFE CONTENT DETECTED'')
        else (GreenBold, CHECK @ lit '' Content is safe'')],
       [],
       [(Plain, lit ''Severity:    ''), su],
       [(Plain, lit ''Confidence:  ''), (Cyan, percent rt (confidence u))],
       [(Plain, lit ''Risk Score:  ''), (Cyan, percent rt (risk_score u))]]
      @ (case categories u of
           None \<Rightarrow> []
         | Some cs \<Rightarrow>
             if cs = [] then [] else [[(Plain, lit ''Categories:  '' @ join (lit '', '') cs)]])
      @ [[], [(Dim, lit ''Rationale:'')], [(Plain, rationale u)], [],
         [(Plain, lit ''Action: ''), (Yellow, recommended_action u)]]
    \<and> stdout (run rt s (Detect_grooming m age) w) =
      [[],
       [if grooming_risk g = lit ''none''
        then (GreenBold, CHECK @ lit '' No grooming detected'')
        else (RedBold, WARNING @ lit '' GROOMING RISK DETECTED'')],
       [],
       [(Plain, lit ''Risk Level:  ''), sg],
       [(Plain, lit ''Confidence:  ''), (Cyan, percent rt (confidence g))],
       [(Plain, lit ''Risk Score:  ''), (Cyan, percent rt (risk_score g))]]
      @ (case flags g of
           None \<Rightarrow> []
         | Some fs \<Rightarrow>
             if fs = [] then []
             else [[], [(Dim, lit ''Warning Flags:'')]]
                  @ map (\<lambda>flag. [(Yellow, lit ''  '' @ BULLET @ lit '' '' @ flag)]) fs)
      @ [[], [(Dim, lit ''Rationale:'')], [(Plain, rationale g)], [],
         [(Plain, lit ''Action: ''), (Yellow, recommended_action g)]]
    \<and> drop 15 (stdout (run rt s (Breach_get i) w)) =
      [[(Plain, lit ''Affected Users:   '' @ join (lit '', '') (affected_user_ids br))],
       [(Plain, lit ''Data Categories:  '' @ join (lit '', '') (data_categories br))]]"
  using bullying_types_line [OF assms(1-3)] unsafe_categories_line [OF assms(1,4,5)]
    grooming_flags_lines [OF assms(1,6-8)] breach_get_list_lines [OF assms(1,9,10)]
  by (intro conjI)

theorem list_fields_of_the_examples:
  "getClient example_sdk example_world = Client (lit ''sk_live_0123456789'')
   \<and> formatSeverity example_runtime (severity example_bullying) = Inr (Red, lit ''HIGH'')
   \<and> formatSeverity example_runtime (severity example_unsafe) = Inr (Yellow, lit ''LOW'')
   \<and> JSON_parse (lit ''[]'') = Some (JArray [])
   \<and> formatRisk example_runtime (grooming_risk example_grooming) = Inr (Green, lit ''SAFE'')
   \<and> formatSeverity example_runtime (breach_severity example_breach)
      = Inr (BgRedWhite, lit ''CRITICAL'')
   \<and> stdout (run example_runtime example_sdk (Detect_bullying (lit ''hello'')) example_world) ! 6
      = [(Plain, lit ''Types:       verbal, exclusion'')]
   \<and> length (stdout (run example_runtime example_sdk (Detect_bullying (lit ''hello'')) example_world))
      = 12
   \<and> length (stdout (run example_runtime example_sdk (Detect_unsafe (lit ''hello'')) example_world))
      = 11
   \<and> take 4 (drop 6
        (stdout (run example_runtime example_sdk (Detect_grooming (lit ''[]'') None) example_world)))
      = [[], [(Dim, lit ''Warning Flags:'')],
         [(Yellow, lit ''  '' @ BULLET @ lit '' secrecy'')],
         [(Yellow, lit ''  '' @ BULLET @ lit '' gifts'')]]
   \<and> drop 15 (stdout (run example_runtime example_sdk (Breach_get (lit ''b1'')) example_world))
      = [[(Plain, lit ''Affected Users:   '')], [(Plain, lit ''Data Categories:  '')]]"
proof -
  let ?key = "lit ''sk_live_0123456789''"
  have b: "detectBullying example_sdk ?key (lit ''hello'') = Inr example_bullying"
    and u: "detectUnsafe example_sdk ?key (lit ''hello'') = Inr example_unsafe"
    and g: "detectGrooming example_sdk ?key (JArray []) None = Inr example_grooming"
    and br: "getBreach example_sdk ?key (lit ''b1'') = Inr example_breach"
    by (simp_all add: example_sdk_def)
  have sb: "formatSeverity example_runtime (severity example_bullying) = Inr (Red, lit ''HIGH'')"
    using formatSeverity_known [of example_runtime] by (simp add: example_bullying_def)
  have su: "formatSeverity example_runtime (severity example_unsafe) = Inr (Yellow, lit ''LOW'')"
    using formatSeverity_known [of example_runtime] by (simp add: example_unsafe_def)
  have sbr: "formatSeverity example_runtime (breach_severity example_breach)
      = Inr (BgRedWhite, lit ''CRITICAL'')"
    using formatSeverity_known [of example_runtime] by (simp add: example_breach_def)
  have sg: "formatRisk example_runtime (grooming_risk example_grooming) = Inr (Green, lit ''SAFE'')"
    using formatRisk_known [of example_runtime] by (simp add: example_grooming_def)
  have p: "JSON_parse (lit ''[]'') = Some (JArray [])" by code_simp
  note both = list_fields_rendering [OF getClient_example b sb u su p g sg br sbr]
  note all = both [THEN conjunct1] both [THEN conjunct2, THEN conjunct1]
    both [THEN conjunct2, THEN conjunct2, THEN conjunct1]
    both [THEN conjunct2, THEN conjunct2, THEN conjunct2]
  have 1: "stdout (run example_runtime example_sdk (Detect_bullying (lit ''hello'')) example_world) ! 6
      = [(Plain, lit ''Types:       verbal, exclusion'')]"
    and 2: "length (stdout (run example_runtime example_sdk (Detect_bullying (lit ''hello'')) example_world))
      = 12"
    unfolding all(1) by (simp_all add: example_bullying_def lit_simps)
  have 3: "length (stdout (run example_runtime example_sdk (Detect_unsafe (lit ''hello'')) example_world))
      = 11"
    unfolding all(2) by (simp add: example_unsafe_def)
  have 4: "take 4 (drop 6
        (stdout (run example_runtime example_sdk (Detect_grooming (lit ''[]'') None) example_world)))
      = [[], [(Dim, lit ''Warning Flags:'')],
         [(Yellow, lit ''  '' @ BULLET @ lit '' secrecy'')],
         [(Yellow, lit ''  '' @ BULLET @ lit '' gifts'')]]"
    unfolding all(3) by (simp add: example_grooming_def lit_simps)
  have 5: "drop 15 (stdout (run example_runtime example_sdk (Breach_get (lit ''b1'')) example_world))
      = [[(Plain, lit ''Affected Users:   '')], [(Plain, lit ''Data Categories:  '')]]"
    unfolding all(4) by (simp add: example_breach_def)
  show ?thesis using getClient_example sb su p sg sbr 1 2 3 4 5 by simp
qed

section \<open>Serialisation and parsing\<close>

text \<open>
  \<open>JSON.parse\<close> reads back what \<open>JSON.stringify(value, null, 2)\<close> printed: first the
  four hexadecimal digits of an escaped code unit, then strings, numbers, and the values built
  from them.
\<close>

subsection \<open>Escapes\<close>

lemma hex_sum: "4096 * (n div 4096) + 256 * (n div 256 mod 16) + 16 * (n div 16 mod 16) + n mod 16 = (n::nat)"
proof -
  have a: "n mod 256 = 16 * (n div 16 mod 16) + n mod 16"
    using mod_mult2_eq[of n 16 16] by simp
  have b: "n mod 4096 = 256 * (n div 256 mod 16) + n mod 256"
    using mod_mult2_eq[of n 256 16] by simp
  have "n = 4096 * (n div 4096) + n mod 4096" by simp
  then show ?thesis using a b by linarith
qed

lemma unat_of_nat_16: "n < 65536 \<Longrightarrow> unat (of_nat n :: 16 word) = n"
  by (simp only: unat_of_nat) simp

lemma unat_hex_digit: "k < 16 \<Longrightarrow> unat (hex_digit k) = (if k < 10 then 48 + k else 87 + k)"
  unfolding hex_digit_def by (simp add: unat_of_nat_16 del: of_nat_add)

lemma hex_value_digit: "k < 16 \<Longrightarrow> hex_value (hex_digit k) = Some k"
  by (simp add: hex_value_def word_le_nat_alt unat_hex_digit)

lemma hex4_roundtrip:
  assumes "hex4 c = [a, b, c', d]"
  shows "hex4_value a b c' d = Some c"
proof -
  let ?n = "unat c"
  have n: "?n < 65536" using unsigned_less[of c, where 'a = nat] by simp
  then have d1: "?n div 4096 < 16" by simp
  have e: "a = hex_digit (?n div 4096)" "b = hex_digit (?n div 256 mod 16)"
    "c' = hex_digit (?n div 16 mod 16)" "d = hex_digit (?n mod 16)"
    using assms by (simp_all add: hex4_def Let_def)
  have "hex_value a = Some (?n div 4096)" "hex_value b = Some (?n div 256 mod 16)"
    "hex_value c' = Some (?n div 16 mod 16)" "hex_value d = Some (?n mod 16)"
    unfolding e using d1 by (simp_all add: hex_value_digit)
  then show ?thesis by (simp add: hex4_value_def hex_sum)
qed

lemma parse_chars_plain:
  "\<lbrakk>c \<noteq> 0x22; \<not> c < 0x20; c \<noteq> 0x5C\<rbrakk> \<Longrightarrow>
   parse_chars (c # tail) = (case parse_chars tail of None \<Rightarrow> None | Some (s, r) \<Rightarrow> Some (c # s, r))"
  by simp

lemma parse_chars_escaped:
  "unescape e = Some c \<Longrightarrow>
   parse_chars (0x5C # e # tail) = (case parse_chars tail of None \<Rightarrow> None | Some (s, r) \<Rightarrow> Some (c # s, r))"
  by (simp add: unescape_def split: if_splits)

lemma parse_chars_hex:
  "hex4_value a b c' d = Some c \<Longrightarrow>
   parse_chars (0x5C # 0x75 # a # b # c' # d # tail) = (case parse_chars tail of None \<Rightarrow> None | Some (s, r) \<Rightarrow> Some (c # s, r))"
  by simp

lemma surrogate_plain:
  "high_surrogate c \<or> low_surrogate c \<Longrightarrow> c \<noteq> 0x22 \<and> \<not> c < 0x20 \<and> c \<noteq> 0x5C"
  by (auto simp: high_surrogate_def low_surrogate_def word_le_nat_alt word_less_nat_alt)

subsection \<open>Strings\<close>

lemma escape_unit_cases:
  "(\<exists>e. escape_unit c = [0x5C, e] \<and> unescape e = Some c)
   \<or> escape_unit c = [0x5C, 0x75] @ hex4 c
   \<or> (escape_unit c = [c] \<and> c \<noteq> 0x22 \<and> \<not> c < 0x20 \<and> c \<noteq> 0x5C)"
  by (simp add: escape_unit_def unescape_def)

lemma parse_chars_escape:
  "parse_chars (escape_unit c @ tail) = (case parse_chars tail of None \<Rightarrow> None | Some (s, r) \<Rightarrow> Some (c # s, r))"
proof -
  consider (special) e where "escape_unit c = [0x5C, e]" "unescape e = Some c"
    | (hex) "escape_unit c = [0x5C, 0x75] @ hex4 c"
    | (plain) "escape_unit c = [c]" "c \<noteq> 0x22" "\<not> c < 0x20" "c \<noteq> 0x5C"
    using escape_unit_cases[of c] by blast
  then show ?thesis
  proof cases
    case (special e)
    then show ?thesis by (simp add: parse_chars_escaped del: parse_chars.simps)
  next
    case hex
    obtain a b c' d where h: "hex4 c = [a, b, c', d]" by (simp add: hex4_def Let_def)
    have v: "hex4_value a b c' d = Some c" using h by (rule hex4_roundtrip)
    show ?thesis unfolding hex h by (simp add: parse_chars_hex[OF v] del: parse_chars.simps)
  next
    case plain
    then show ?thesis by (simp add: parse_chars_plain del: parse_chars.simps)
  qed
qed

lemma parse_chars_quote_units:
  "parse_chars (quote_units s @ 0x22 # rest) = Some (s, rest)"
proof (induction s rule: quote_units.induct)
  case 1
  show ?case by simp
next
  case (2 c)
  have "parse_chars (0x22 # rest) = Some ([], rest)" by simp
  then show ?case by (simp add: parse_chars_escape del: parse_chars.simps)
next
  case (3 c d cs)
  show ?case
  proof (cases "high_surrogate c \<and> low_surrogate d")
    case True
    then have c: "c \<noteq> 0x22" "\<not> c < 0x20" "c \<noteq> 0x5C" and d: "d \<noteq> 0x22" "\<not> d < 0x20" "d \<noteq> 0x5C"
      using surrogate_plain[of c] surrogate_plain[of d] by auto
    have "quote_units (c # d # cs) = c # d # quote_units cs" using True by simp
    then show ?thesis using 3(1)[OF True]
      by (simp add: parse_chars_plain[OF c] parse_chars_plain[OF d] del: parse_chars.simps)
  next
    case False
    then have "quote_units (c # d # cs) = escape_unit c @ quote_units (d # cs)" by auto
    then show ?thesis using 3(2)[OF False]
      by (simp add: parse_chars_escape del: parse_chars.simps)
  qed
qed

lemma parse_quoted: "parse_chars (tl (quote s) @ rest) = Some (s, rest)"
  by (simp add: quote_def parse_chars_quote_units del: parse_chars.simps)

subsection \<open>Numbers\<close>

lemma starts_append:
  assumes "number_end q" and "c = 0x2E \<or> c = 0x65 \<or> c = 0x45 \<or> c = 0x2B \<or> c = 0x2D"
  shows "starts c (p @ q) = starts c p"
  using assms by (cases p; cases q) (auto simp: number_end_def starts_def)

lemma starts_nonempty: "starts c p \<Longrightarrow> p \<noteq> []"
  by (auto simp: starts_def)

lemma digits_part_append:
  assumes "number_end q"
  shows "digits_part (p @ q) = (fst (digits_part p), snd (digits_part p) @ q)"
proof -
  have "takeWhile is_digit q = []" "dropWhile is_digit q = q"
    using assms by (cases q; simp add: number_end_def)+
  then have "takeWhile is_digit (p @ q) = takeWhile is_digit p \<and>
      dropWhile is_digit (p @ q) = dropWhile is_digit p @ q"
    by (induction p) simp_all
  then show ?thesis by (simp add: digits_part_def)
qed

lemma sign_part_append:
  assumes "number_end q"
  shows "sign_part (p @ q) = (fst (sign_part p), snd (sign_part p) @ q)"
  using starts_nonempty[of "0x2D" p]
  by (auto simp: sign_part_def starts_append[OF assms])

lemma fraction_part_append:
  assumes "number_end q"
  shows "fraction_part (p @ q) = (fst (fraction_part p), snd (fraction_part p) @ q)"
  using starts_nonempty[of "0x2E" p]
  by (auto simp: fraction_part_def starts_append[OF assms] digits_part_append[OF assms])

lemma exponent_part_append:
  assumes "number_end q"
  shows "exponent_part (p @ q) = (fst (exponent_part p), snd (exponent_part p) @ q)"
proof (cases "starts 0x65 p \<or> starts 0x45 p")
  case False
  then show ?thesis by (simp add: exponent_part_def starts_append[OF assms])
next
  case True
  then have p: "p \<noteq> []" using starts_nonempty by blast
  then have t: "tl (p @ q) = tl p @ q" by simp
  have tt: "tl (tl p @ q) = tl (tl p) @ q" if "starts c (tl p)" for c
    using starts_nonempty[OF that] by simp
  show ?thesis using True
    by (auto simp: exponent_part_def starts_append[OF assms] t tt Let_def digits_part_append[OF assms])
qed

lemma parse_number_append:
  assumes "number_end q"
  shows "parse_number (p @ q) = (case parse_number p of None \<Rightarrow> None | Some (n, r) \<Rightarrow> Some (n, r @ q))"
proof -
  obtain neg c1 where 1: "sign_part p = (neg, c1)" by force
  obtain ip c2 where 2: "digits_part c1 = (ip, c2)" by force
  obtain fp c3 where 3: "fraction_part c2 = (fp, c3)" by force
  obtain ep c4 where 4: "exponent_part c3 = (ep, c4)" by force
  have 5: "sign_part (p @ q) = (neg, c1 @ q)"
    using sign_part_append[OF assms, of p] 1 by simp
  have 6: "digits_part (c1 @ q) = (ip, c2 @ q)"
    using digits_part_append[OF assms, of c1] 2 by simp
  have 7: "fraction_part (c2 @ q) = (fp, c3 @ q)"
    using fraction_part_append[OF assms, of c2] 3 by simp
  have 8: "exponent_part (c3 @ q) = (ep, c4 @ q)"
    using exponent_part_append[OF assms, of c3] 4 by simp
  show ?thesis by (simp add: parse_number_def 1 2 3 4 5 6 7 8 Let_def)
qed

lemma parse_number_first:
  assumes "parse_number t = Some (n, r)"
  shows "t \<noteq> [] \<and> (hd t = 0x2D \<or> is_digit (hd t))"
proof -
  have ip: "fst (digits_part (snd (sign_part t))) \<noteq> []"
    using assms by (auto simp: parse_number_def case_prod_beta Let_def split: if_splits)
  show ?thesis
  proof (cases "starts 0x2D t")
    case True
    then show ?thesis by (cases t) (auto simp: starts_def)
  next
    case False
    then have "takeWhile is_digit t \<noteq> []" using ip by (simp add: sign_part_def digits_part_def)
    then show ?thesis by (cases t) (auto split: if_splits)
  qed
qed

subsection \<open>White space and first code units\<close>

lemma skip_ws_append:
  "list_all whitespace pre \<Longrightarrow> skip_ws (pre @ cs) = skip_ws cs"
  by (induction pre) (simp_all add: skip_ws_def)

lemma skip_ws_start: "\<not> whitespace c \<Longrightarrow> skip_ws (c # cs) = c # cs"
  by (simp add: skip_ws_def)

lemma parse_value_skip:
  "list_all whitespace pre \<Longrightarrow> parse_value n (pre @ cs) = parse_value n cs"
  by (cases n) (simp_all add: skip_ws_append)

lemma value_start_not:
  "value_start c \<Longrightarrow> \<not> whitespace c \<and> c \<noteq> 0x5D \<and> c \<noteq> 0x7D \<and> c \<noteq> 0x2C"
  by (auto simp: value_start_def whitespace_def is_digit_def word_le_nat_alt)

lemma serialize_start:
  assumes "well_printed rt v"
  shows "\<exists>c t. serialize rt ind v = c # t \<and> value_start c"
proof (cases v)
  case (JNumber n)
  then obtain x where x: "n = Finite x" "parse_number (number_text rt x) = Some (Finite x, [])"
    using assms by (cases n) simp_all
  from parse_number_first[OF x(2)] show ?thesis
    using JNumber x(1) by (cases "number_text rt x") (auto simp: value_start_def)
qed (auto simp: value_start_def lit_simps quote_def)

lemma number_end_simps:
  "number_end []" "number_end (0x2C # cs)" "number_end (0x0A # cs)"
  by (simp_all add: number_end_def is_digit_def)

subsection \<open>Arrays and objects\<close>

lemma whitespace_simps: "whitespace 0x0A" "whitespace 0x20" "\<not> whitespace 0x5D" "\<not> whitespace 0x7D"
  "\<not> whitespace 0x2C" "\<not> whitespace 0x3A" "\<not> whitespace 0x22" "\<not> whitespace 0x5B" "\<not> whitespace 0x7B"
  by (simp_all add: whitespace_def)

lemma parse_elements_serialized:
  assumes IH: "\<And>v n rest'. v \<in> set vs \<Longrightarrow> size v < n \<Longrightarrow> number_end rest' \<Longrightarrow>
      parse_value n (serialize rt ind' v @ rest') = Some (v, rest')"
    and ws: "list_all whitespace ind" "list_all whitespace ind'"
  shows "vs \<noteq> [] \<Longrightarrow> list_all whitespace pre \<Longrightarrow> size_list size vs < n \<Longrightarrow>
    parse_elements n (pre @ join (0x2C # 0x0A # ind') (map (serialize rt ind') vs) @ 0x0A # ind @ 0x5D # rest)
      = Some (vs, rest)"
  using IH
proof (induction vs arbitrary: n pre)
  case Nil
  then show ?case by simp
next
  case (Cons v vs)
  from Cons.prems(3) obtain m where n: "n = Suc m" by (cases n) simp_all
  have sv: "size v < m" and svs: "size_list size vs < m \<or> vs = []"
    using Cons.prems(3) n by auto
  have pv: "parse_value m (pre @ serialize rt ind' v @ tail) = Some (v, tail)" if "number_end tail" for tail
    using Cons.prems(4)[of v m tail] sv that Cons.prems(2) by (simp add: parse_value_skip)
  show ?case
  proof (cases vs)
    case Nil
    have e: "skip_ws (0x0A # ind @ 0x5D # rest) = 0x5D # rest"
      using skip_ws_append[of "0x0A # ind" "0x5D # rest"] ws(1)
      by (simp add: whitespace_simps skip_ws_start)
    show ?thesis
      using pv[of "0x0A # ind @ 0x5D # rest"] e
      by (simp add: Nil n number_end_simps)
  next
    case (Cons w ws)
    let ?J = "join (0x2C # 0x0A # ind') (map (serialize rt ind') (w # ws))"
    let ?tail = "?J @ 0x0A # ind @ 0x5D # rest"
    have r: "parse_elements m ((0x0A # ind') @ ?tail) = Some (vs, rest)"
      using Cons.IH[of "0x0A # ind'" m] Cons.prems(3,4) n Cons ws(2)
      by (simp add: whitespace_simps)
    have j: "join (0x2C # 0x0A # ind') (map (serialize rt ind') (v # vs))
        = serialize rt ind' v @ 0x2C # 0x0A # ind' @ ?J"
      by (simp add: Cons)
    show ?thesis
      using pv[of "0x2C # 0x0A # ind' @ ?tail"] r
      by (simp add: n number_end_simps skip_ws_start whitespace_simps Cons)
  qed
qed

lemma parse_members_serialized:
  assumes IH: "\<And>m n rest'. m \<in> set ms \<Longrightarrow> size (snd m) < n \<Longrightarrow> number_end rest' \<Longrightarrow>
      parse_value n (serialize rt ind' (snd m) @ rest') = Some (snd m, rest')"
    and ws: "list_all whitespace ind" "list_all whitespace ind'"
  shows "ms \<noteq> [] \<Longrightarrow> list_all whitespace pre \<Longrightarrow> size_list (size_prod (\<lambda>x. 0) size) ms < n \<Longrightarrow>
    parse_members n
      (pre @ join (0x2C # 0x0A # ind')
               (map (\<lambda>m. quote (fst m) @ 0x3A # 0x20 # serialize rt ind' (snd m)) ms)
           @ 0x0A # ind @ 0x7D # rest)
      = Some (ms, rest)"
  using IH
proof (induction ms arbitrary: n pre)
  case Nil
  then show ?case by simp
next
  case (Cons kv ms)
  obtain k v where kv: "kv = (k, v)" by (cases kv)
  from Cons.prems(3) obtain m where n: "n = Suc m" by (cases n) simp_all
  have sv: "size v < m" using Cons.prems(3) n kv by simp
  have pv: "parse_value m (0x20 # serialize rt ind' v @ tail) = Some (v, tail)" if "number_end tail" for tail
    using Cons.prems(4)[of kv m tail] sv that kv parse_value_skip[of "[0x20]" m "serialize rt ind' v @ tail"]
    by (simp add: whitespace_simps)
  have key: "parse_chars (quote_units k @ 0x22 # tail) = Some (k, tail)" for tail
    by (rule parse_chars_quote_units)
  have start: "skip_ws (pre @ 0x22 # tail) = 0x22 # tail" for tail
    using skip_ws_append[OF Cons.prems(2), of "0x22 # tail"] by (simp add: skip_ws_start whitespace_simps)
  show ?case
  proof (cases ms)
    case Nil
    have e: "skip_ws (0x0A # ind @ 0x7D # rest) = 0x7D # rest"
      using skip_ws_append[of "0x0A # ind" "0x7D # rest"] ws(1)
      by (simp add: whitespace_simps skip_ws_start)
    show ?thesis
      using pv[of "0x0A # ind @ 0x7D # rest"] e
      by (simp add: Nil n kv quote_def start key number_end_simps skip_ws_start whitespace_simps
          del: parse_chars.simps)
  next
    case (Cons w ws)
    let ?J = "join (0x2C # 0x0A # ind')
        (map (\<lambda>m. quote (fst m) @ 0x3A # 0x20 # serialize rt ind' (snd m)) (w # ws))"
    let ?tail = "?J @ 0x0A # ind @ 0x7D # rest"
    have r: "parse_members m ((0x0A # ind') @ ?tail) = Some (ms, rest)"
      using Cons.IH[of "0x0A # ind'" m] Cons.prems(3,4) n Cons ws(2)
      by (simp add: whitespace_simps)
    show ?thesis
      using pv[of "0x2C # 0x0A # ind' @ ?tail"] r
      by (simp add: n kv quote_def start key number_end_simps skip_ws_start whitespace_simps Cons
          del: parse_chars.simps)
  qed
qed

subsection \<open>Values\<close>

lemma take_lit_append: "length (lit k) = n \<Longrightarrow> take n (lit k @ rest) = lit k \<and> drop n (lit k @ rest) = rest"
  by simp

lemma parse_serialized:
  "well_printed rt v \<Longrightarrow> list_all whitespace ind \<Longrightarrow> size v < n \<Longrightarrow> number_end rest \<Longrightarrow>
   parse_value n (serialize rt ind v @ rest) = Some (v, rest)"
proof (induction v arbitrary: ind rest n)
  case JNull
  then obtain m where "n = Suc m" by (cases n) simp_all
  then show ?case by (simp add: lit_simps skip_ws_start whitespace_def)
next
  case (JBool b)
  then obtain m where "n = Suc m" by (cases n) simp_all
  then show ?case by (simp add: lit_simps skip_ws_start whitespace_def)
next
  case (JNumber num)
  then obtain m where n: "n = Suc m" by (cases n) simp_all
  from JNumber.prems(1) obtain x where x: "num = Finite x"
      "parse_number (number_text rt x) = Some (Finite x, [])"
    by (cases num) simp_all
  from parse_number_first[OF x(2)] obtain c t where t: "number_text rt x = c # t" "c = 0x2D \<or> is_digit c"
    by (cases "number_text rt x") auto
  have c: "\<not> whitespace c" "c \<noteq> 0x5B" "c \<noteq> 0x7B" "c \<noteq> 0x22" "c \<noteq> 0x74" "c \<noteq> 0x66" "c \<noteq> 0x6E"
    using t(2) by (auto simp: whitespace_def is_digit_def word_le_nat_alt)
  have p: "parse_number (c # t @ rest) = Some (Finite x, rest)"
    using parse_number_append[OF JNumber.prems(4), of "number_text rt x"] x(2) t(1) by simp
  show ?case
    using c p by (simp add: n x(1) t(1) skip_ws_start lit_simps)
next
  case (JString s)
  then obtain m where "n = Suc m" by (cases n) simp_all
  then show ?case
    by (simp add: quote_def skip_ws_start whitespace_simps parse_chars_quote_units
        del: parse_chars.simps)
next
  case (JArray vs)
  then obtain m where n: "n = Suc m" by (cases n) simp_all
  show ?case
  proof (cases vs)
    case Nil
    then show ?thesis by (simp add: n lit_simps skip_ws_start whitespace_simps)
  next
    case (Cons v vs')
    let ?ind = "ind @ lit ''  ''"
    have wi: "list_all whitespace ?ind"
      using JArray.prems(2) by (simp add: lit_simps whitespace_simps)
    have IH: "\<And>u k rest'. u \<in> set vs \<Longrightarrow> size u < k \<Longrightarrow> number_end rest' \<Longrightarrow>
        parse_value k (serialize rt ?ind u @ rest') = Some (u, rest')"
      using JArray.IH JArray.prems(1) wi by (simp add: list_all_iff)
    have sz: "size_list size vs < m" using JArray.prems(3) n by simp
    let ?body = "join (0x2C # 0x0A # ?ind) (map (serialize rt ?ind) vs) @ 0x0A # ind @ 0x5D # rest"
    have el: "parse_elements m ((0x0A # ?ind) @ ?body) = Some (vs, rest)"
      using parse_elements_serialized[of vs rt ?ind ind "0x0A # ?ind" m rest, OF IH JArray.prems(2) wi]
        Cons sz wi by (simp add: whitespace_simps)
    have "well_printed rt v" using JArray.prems(1) Cons by simp
    from serialize_start[OF this, of ?ind] obtain c t where
      ct: "serialize rt ?ind v = c # t" "value_start c" by blast
    obtain t' where body: "?body = c # t'"
      using ct(1) Cons by (cases vs') simp_all
    have "skip_ws ((0x0A # ?ind) @ ?body) = c # t'"
      using skip_ws_append[of "0x0A # ?ind" ?body] wi value_start_not[OF ct(2)] body
      by (simp add: whitespace_simps skip_ws_start)
    then show ?thesis
      using el value_start_not[OF ct(2)] Cons
      by (simp add: n lit_simps skip_ws_start whitespace_simps)
  qed
next
  case (JObject ms)
  then obtain m where n: "n = Suc m" by (cases n) simp_all
  show ?case
  proof (cases ms)
    case Nil
    then show ?thesis by (simp add: n lit_simps skip_ws_start whitespace_simps)
  next
    case (Cons kv ms')
    let ?ind = "ind @ lit ''  ''"
    have wi: "list_all whitespace ?ind"
      using JObject.prems(2) by (simp add: lit_simps whitespace_simps)
    have IH: "\<And>e k rest'. e \<in> set ms \<Longrightarrow> size (snd e) < k \<Longrightarrow> number_end rest' \<Longrightarrow>
        parse_value k (serialize rt ?ind (snd e) @ rest') = Some (snd e, rest')"
    proof -
      fix e k rest'
      assume e: "e \<in> set ms" "size (snd e) < k" "number_end rest'"
      obtain a b where ab: "e = (a, b)" by (cases e)
      have "well_printed rt b" using JObject.prems(1) e(1) ab by (auto simp: list_all_iff)
      then show "parse_value k (serialize rt ?ind (snd e) @ rest') = Some (snd e, rest')"
        using JObject.IH[of e b ?ind k rest'] e ab wi by simp
    qed
    have sz: "size_list (size_prod (\<lambda>x. 0) size) ms < m" using JObject.prems(3) n by simp
    let ?body = "join (0x2C # 0x0A # ?ind)
        (map (\<lambda>e. quote (fst e) @ 0x3A # 0x20 # serialize rt ?ind (snd e)) ms) @ 0x0A # ind @ 0x7D # rest"
    have el: "parse_members m ((0x0A # ?ind) @ ?body) = Some (ms, rest)"
      using parse_members_serialized[of ms rt ?ind ind "0x0A # ?ind" m rest, OF IH JObject.prems(2) wi]
        Cons sz wi by (simp add: whitespace_simps)
    obtain t' where body: "?body = 0x22 # t'"
      using Cons by (cases ms') (simp_all add: quote_def)
    have "skip_ws ((0x0A # ?ind) @ ?body) = 0x22 # t'"
      using skip_ws_append[of "0x0A # ?ind" ?body] wi body
      by (simp add: whitespace_simps skip_ws_start)
    then show ?thesis
      using el Cons
      by (simp add: n lit_simps skip_ws_start whitespace_simps)
  qed
qed

lemma size_list_le_join:
  "(\<And>x. x \<in> set xs \<Longrightarrow> f x \<le> length (g x)) \<Longrightarrow> sep \<noteq> [] \<Longrightarrow>
   size_list f xs \<le> length (join sep (map g xs)) + 1"
proof (induction xs)
  case Nil
  then show ?case by simp
next
  case (Cons x xs)
  have "1 \<le> length sep" using Cons.prems(2) by (cases sep) simp_all
  moreover have "f x \<le> length (g x)" using Cons.prems(1) by simp
  moreover have "size_list f xs \<le> length (join sep (map g xs)) + 1"
    using Cons by simp
  ultimately show ?case by (cases xs) simp_all
qed

lemma size_le_serialize: "size v \<le> length (serialize rt ind v)"
proof (induction v arbitrary: ind)
  case (JArray vs)
  show ?case
  proof (cases "vs = []")
    case True
    then show ?thesis by (simp add: lit_simps)
  next
    case False
    have "size_list size vs \<le> length (join (0x2C # 0x0A # ind @ lit ''  '')
        (map (serialize rt (ind @ lit ''  '')) vs)) + 1"
      by (rule size_list_le_join) (simp_all add: JArray.IH)
    then show ?thesis using False by (simp add: lit_simps)
  qed
next
  case (JObject ms)
  show ?case
  proof (cases "ms = []")
    case True
    then show ?thesis by (simp add: lit_simps)
  next
    case False
    have "size_list (size_prod (\<lambda>x. 0) size) ms \<le> length (join (0x2C # 0x0A # ind @ lit ''  '')
        (map (\<lambda>e. quote (fst e) @ 0x3A # 0x20 # serialize rt (ind @ lit ''  '') (snd e)) ms)) + 1"
    proof (rule size_list_le_join)
      fix e assume e: "e \<in> set ms"
      obtain a b where ab: "e = (a, b)" by (cases e)
      have "size b \<le> length (serialize rt (ind @ lit ''  '') b)"
        using JObject.IH[of e b] e ab by simp
      then show "size_prod (\<lambda>x. 0) size e
          \<le> length (quote (fst e) @ 0x3A # 0x20 # serialize rt (ind @ lit ''  '') (snd e))"
        by (simp add: ab)
    qed simp
    then show ?thesis using False by (simp add: lit_simps case_prod_beta)
  qed
qed simp_all

lemma stringify_roundtrip: "well_printed rt v \<Longrightarrow> JSON_parse (stringify rt v) = Some v"
proof -
  assume w: "well_printed rt v"
  let ?s = "serialize rt [] v"
  have n: "size v < 2 * length ?s + 2"
    using size_le_serialize[of v rt "[]"] by simp
  have e: "number_end []" by (simp add: number_end_def)
  have i: "list_all whitespace []" by simp
  have "parse_value (2 * length ?s + 2) (?s @ []) = Some (v, [])"
    using w i n e by (rule parse_serialized)
  then show ?thesis by (simp add: JSON_parse_def stringify_def skip_ws_def)
qed

section \<open>Account export\<close>

text \<open>
  C7: when the export succeeds, \<open>account export\<close> with \<open>-o file\<close> (a file that can be
  written) writes the serialisation of the SDK's result to the file, logs the
  confirmation line and nothing else, and exits with status 0; without \<open>-o\<close> it logs the
  same serialisation and leaves the files alone. When the result is well printed, the
  text written is JSON that \<open>JSON.parse\<close> reads back as the result itself.
\<close>

theorem account_export_output:
  assumes "getClient s w = Client key" and "exportAccountData s key = Inr v"
    and "file \<noteq> []" and "write_error rt file = None"
  shows "stdout (run rt s (Account_export (Some file)) w)
      = [[(GreenBold, CHECK @ lit '' Data exported to '' @ file)]]
    \<and> stderr (run rt s (Account_export (Some file)) w) = []
    \<and> exit_status (run rt s (Account_export (Some file)) w) = 0
    \<and> files (world_after (run rt s (Account_export (Some file)) w))
      = (files w)(file \<mapsto> stringify rt v)
    \<and> stdout (run rt s (Account_export None) w) = [[(Plain, stringify rt v)]]
    \<and> stderr (run rt s (Account_export None) w) = []
    \<and> exit_status (run rt s (Account_export None) w) = 0
    \<and> world_after (run rt s (Account_export None) w) = w
    \<and> (well_printed rt v \<longrightarrow>
        (\<exists>t. files (world_after (run rt s (Account_export (Some file)) w)) file = Some t
           \<and> JSON_parse t = Some v))"
proof -
  have "stdout (run rt s (Account_export (Some file)) w)
      = [[(GreenBold, CHECK @ lit '' Data exported to '' @ file)]]
    \<and> stderr (run rt s (Account_export (Some file)) w) = []
    \<and> exit_status (run rt s (Account_export (Some file)) w) = 0
    \<and> files (world_after (run rt s (Account_export (Some file)) w))
      = (files w)(file \<mapsto> stringify rt v)
    \<and> stdout (run rt s (Account_export None) w) = [[(Plain, stringify rt v)]]
    \<and> stderr (run rt s (Account_export None) w) = []
    \<and> exit_status (run rt s (Account_export None) w) = 0
    \<and> world_after (run rt s (Account_export None) w) = w"
    using assms by (simp add: account_export_action_def run_defs Let_def)
  then show ?thesis by (simp add: stringify_roundtrip)
qed

theorem account_export_of_the_example:
  "getClient example_sdk example_world = Client (lit ''sk_live_0123456789'')
   \<and> exportAccountData example_sdk (lit ''sk_live_0123456789'') = Inr example_export
   \<and> lit ''out.json'' \<noteq> []
   \<and> write_error example_runtime (lit ''out.json'') = None
   \<and> well_printed example_runtime example_export
   \<and> stdout (run example_runtime example_sdk (Account_export (Some (lit ''out.json''))) example_world)
      = [[(GreenBold, CHECK @ lit '' Data exported to out.json'')]]
   \<and> files (world_after
        (run example_runtime example_sdk (Account_export (Some (lit ''out.json''))) example_world))
        (lit ''out.json'')
      = Some (stringify example_runtime example_export)
   \<and> JSON_parse (stringify example_runtime example_export) = Some example_export
   \<and> stdout (run example_runtime example_sdk (Account_export None) example_world)
      = [[(Plain, stringify example_runtime example_export)]]"
proof -
  have e: "exportAccountData example_sdk (lit ''sk_live_0123456789'') = Inr example_export"
    by (simp add: example_sdk_def)
  have f: "lit ''out.json'' \<noteq> []" by (simp add: lit_simps)
  have g: "write_error example_runtime (lit ''out.json'') = None"
    by (simp add: example_runtime_def)
  have p: "well_printed example_runtime example_export" by code_simp
  let ?out = "run example_runtime example_sdk (Account_export (Some (lit ''out.json''))) example_world"
  note t = account_export_output [OF getClient_example e f g]
  have a: "stdout ?out = [[(GreenBold, CHECK @ lit '' Data exported to out.json'')]]"
    using t by (simp add: lit_simps)
  have "files (world_after ?out)
      = (files example_world)(lit ''out.json'' \<mapsto> stringify example_runtime example_export)"
    using t by blast
  then have b: "files (world_after ?out) (lit ''out.json'')
      = Some (stringify example_runtime example_export)"
    by simp
  have "\<exists>t. files (world_after ?out) (lit ''out.json'') = Some t
      \<and> JSON_parse t = Some example_export"
    using t p by blast
  then have c: "JSON_parse (stringify example_runtime example_export) = Some example_export"
    using b by auto
  have d: "stdout (run example_runtime example_sdk (Account_export None) example_world)
      = [[(Plain, stringify example_runtime example_export)]]"
    using t by blast
  show ?thesis
    using getClient_example e f g p a b c d by blast
qed

end
